theory Spec2Isabelle
  imports Complex_Main "HOL-Library.Sublist" "HOL-Library.Char_ord" "HOL-Library.List_Lexorder"
    "HOL-Library.Multiset"
begin

text \<open>
  A model of the prescriber map: the pipeline \<open>fetch-prescribers.js\<close>, which pages
  through the tagged contacts of the CRM, fetches their field values, geocodes their
  addresses and writes \<open>prescribers.json\<close>, and the page \<open>public/js/app.js\<close>, which
  filters the records by state, by distance from a zip code and by name. Asynchronous
  functions are modelled by their results; the answers of the services they call are
  parameters. An exception is the left summand of a result.
\<close>

section \<open>Strings\<close>

text \<open>
  JavaScript strings are modelled as \<open>string\<close> (lists of 8-bit characters) and read as
  ASCII text: \<open>toUpperCase\<close> and \<open>toLowerCase\<close> act on the letters \<open>a\<close>..\<open>z\<close> and
  \<open>A\<close>..\<open>Z\<close>, \<open>trim\<close> strips the ASCII white space (tab, line feed, vertical tab, form
  feed, carriage return, space). Characters outside ASCII are left alone by the model.
  A value that may be \<open>null\<close> or \<open>undefined\<close> is a \<open>string option\<close>.
\<close>

definition lowerLetters :: string where
  "lowerLetters = ''abcdefghijklmnopqrstuvwxyz''"

definition upperLetters :: string where
  "upperLetters = ''ABCDEFGHIJKLMNOPQRSTUVWXYZ''"

definition toUpperChar :: "char \<Rightarrow> char" where
  "toUpperChar c = (case map_of (zip lowerLetters upperLetters) c of None \<Rightarrow> c | Some u \<Rightarrow> u)"

definition toLowerChar :: "char \<Rightarrow> char" where
  "toLowerChar c = (case map_of (zip upperLetters lowerLetters) c of None \<Rightarrow> c | Some l \<Rightarrow> l)"

definition toUpperCase :: "string \<Rightarrow> string" where
  "toUpperCase s = map toUpperChar s"

definition toLowerCase :: "string \<Rightarrow> string" where
  "toLowerCase s = map toLowerChar s"

definition isWhiteSpace :: "char \<Rightarrow> bool" where
  "isWhiteSpace c = (c \<in> set [CHR 0x09, CHR 0x0A, CHR 0x0B, CHR 0x0C, CHR 0x0D, CHR 0x20])"

definition trim :: "string \<Rightarrow> string" where
  "trim s = rev (dropWhile isWhiteSpace (rev (dropWhile isWhiteSpace s)))"

text \<open>Truthiness of a possibly absent string: \<open>null\<close>, \<open>undefined\<close> and \<open>""\<close> are falsy.\<close>

definition truthy :: "string option \<Rightarrow> bool" where
  "truthy v = (case v of None \<Rightarrow> False | Some s \<Rightarrow> s \<noteq> [])"

text \<open>\<open>a || b\<close> on possibly absent strings; \<open>a || null\<close> is \<open>orElse a None\<close>.\<close>

definition orElse :: "string option \<Rightarrow> string option \<Rightarrow> string option" where
  "orElse a b = (if truthy a then a else b)"

text \<open>\<open>parts.filter(Boolean)\<close> followed by \<open>join(sep)\<close>.\<close>

definition filterBoolean :: "string option list \<Rightarrow> string list" where
  "filterBoolean parts = map the (filter truthy parts)"

fun join :: "string \<Rightarrow> string list \<Rightarrow> string" where
  "join sep [] = []"
| "join sep [x] = x"
| "join sep (x # y # ys) = x @ sep @ join sep (y # ys)"

text \<open>\<open>s.includes(q)\<close>: \<open>q\<close> occurs in \<open>s\<close> as a contiguous block.\<close>

fun includesStr :: "string \<Rightarrow> string \<Rightarrow> bool" where
  "includesStr [] q = (q = [])"
| "includesStr (c # cs) q = (prefix q (c # cs) \<or> includesStr cs q)"

section \<open>The prescriber record\<close>

text \<open>
  The record written by the pipeline and read by the map. Numbers are modelled as reals
  (rounding, \<open>NaN\<close> and infinities of the JavaScript doubles are outside the model); a
  coordinate that may be \<open>null\<close> is a \<open>real option\<close>. The field \<open>id\<close> is \<open>pid\<close> and
  \<open>zip\<close> is \<open>zipcode\<close> here, the source's names being constants of HOL (as is \<open>total\<close>
  of the output document, \<open>totalCount\<close> below).
\<close>

record address =
  street :: string
  city :: "string option"
  state :: "string option"
  zipcode :: "string option"
  full :: "string option"

record prescriber =
  pid :: string
  name :: string
  email :: "string option"
  phone :: "string option"
  organization :: "string option"
  specialty :: "string option"
  practiceType :: "string option"
  npi :: "string option"
  address :: address
  lat :: "real option"
  lng :: "real option"
  geoSource :: "string option"
  healthSystem :: "string option"
  verified :: bool
  googleAddress :: "string option"

text \<open>\<open>p.lat && p.lng\<close>: both coordinates present and non-zero (the number 0 is falsy).\<close>

definition truthyNum :: "real option \<Rightarrow> bool" where
  "truthyNum v = (case v of None \<Rightarrow> False | Some x \<Rightarrow> x \<noteq> 0)"

definition hasCoords :: "prescriber \<Rightarrow> bool" where
  "hasCoords p = (truthyNum (lat p) \<and> truthyNum (lng p))"

section \<open>State filter of the map (public/js/app.js)\<close>

definition STATE_CODES :: "(string \<times> string) list" where
  "STATE_CODES =
    [(''ALABAMA'', ''AL''), (''ALASKA'', ''AK''), (''ARIZONA'', ''AZ''), (''ARKANSAS'', ''AR''),
     (''CALIFORNIA'', ''CA''), (''COLORADO'', ''CO''), (''CONNECTICUT'', ''CT''),
     (''DELAWARE'', ''DE''), (''FLORIDA'', ''FL''), (''GEORGIA'', ''GA''), (''HAWAII'', ''HI''),
     (''IDAHO'', ''ID''), (''ILLINOIS'', ''IL''), (''INDIANA'', ''IN''), (''IOWA'', ''IA''),
     (''KANSAS'', ''KS''), (''KENTUCKY'', ''KY''), (''LOUISIANA'', ''LA''), (''MAINE'', ''ME''),
     (''MARYLAND'', ''MD''), (''MASSACHUSETTS'', ''MA''), (''MICHIGAN'', ''MI''),
     (''MINNESOTA'', ''MN''), (''MISSISSIPPI'', ''MS''), (''MISSOURI'', ''MO''),
     (''MONTANA'', ''MT''), (''NEBRASKA'', ''NE''), (''NEVADA'', ''NV''),
     (''NEW HAMPSHIRE'', ''NH''), (''NEW JERSEY'', ''NJ''), (''NEW MEXICO'', ''NM''),
     (''NEW YORK'', ''NY''), (''NORTH CAROLINA'', ''NC''), (''NORTH DAKOTA'', ''ND''),
     (''OHIO'', ''OH''), (''OKLAHOMA'', ''OK''), (''OREGON'', ''OR''), (''PENNSYLVANIA'', ''PA''),
     (''RHODE ISLAND'', ''RI''), (''SOUTH CAROLINA'', ''SC''), (''SOUTH DAKOTA'', ''SD''),
     (''TENNESSEE'', ''TN''), (''TEXAS'', ''TX''), (''UTAH'', ''UT''), (''VERMONT'', ''VT''),
     (''VIRGINIA'', ''VA''), (''WASHINGTON'', ''WA''), (''WEST VIRGINIA'', ''WV''),
     (''WISCONSIN'', ''WI''), (''WYOMING'', ''WY''), (''DISTRICT OF COLUMBIA'', ''DC'')]"

definition VALID_CODES :: "string list" where
  "VALID_CODES = map snd STATE_CODES"

definition normalizeState :: "string option \<Rightarrow> string option" where
  "normalizeState raw =
     (if \<not> truthy raw then None
      else let upper = toUpperCase (trim (the raw)) in
        if upper \<in> set VALID_CODES then Some upper
        else (case map_of STATE_CODES upper of Some code \<Rightarrow> Some code | None \<Rightarrow> None))"

text \<open>
  \<open>getFilteredPrescribers\<close> reads the value of the state select (\<open>""\<close> when no state is
  chosen) and the loaded records.
\<close>

definition getFilteredPrescribers :: "string \<Rightarrow> prescriber list \<Rightarrow> prescriber list" where
  "getFilteredPrescribers st allPrescribers =
     (if st = [] then allPrescribers
      else filter (\<lambda>p. normalizeState (state (address p)) = Some st) allPrescribers)"

text \<open>The options of the state select: the sorted distinct codes of the loaded records.\<close>

definition populateStateFilter :: "prescriber list \<Rightarrow> string list" where
  "populateStateFilter allPrescribers =
     sort (remdups (filterBoolean (map (\<lambda>p. normalizeState (state (address p))) allPrescribers)))"


section \<open>Name search of the map\<close>

text \<open>
  The \<open>input\<close> handler of \<open>initDoctorSearch\<close>, run on every change of the search box:
  \<open>None\<close> is the hidden dropdown (query shorter than 2), \<open>Some ms\<close> the matches shown.
\<close>

definition doctorSearch :: "string \<Rightarrow> prescriber list \<Rightarrow> prescriber list option" where
  "doctorSearch inputValue allPrescribers =
     (let query = toLowerCase (trim inputValue) in
      if length query < 2 then None
      else Some (take 20
        (filter (\<lambda>p. name p \<noteq> [] \<and> includesStr (toLowerCase (name p)) query)
           allPrescribers)))"

section \<open>Haversine distance\<close>

text \<open>
  \<open>Math.atan2 y x\<close> on the reals. The square roots of \<open>haversine\<close> are those of the
  reals: where the argument is negative, JavaScript gives \<open>NaN\<close> and the model does not.
\<close>

definition atan2 :: "real \<Rightarrow> real \<Rightarrow> real" where
  "atan2 y x =
     (if 0 < x then arctan (y / x)
      else if x < 0 then (if 0 \<le> y then arctan (y / x) + pi else arctan (y / x) - pi)
      else if 0 < y then pi / 2
      else if y < 0 then - (pi / 2)
      else 0)"

definition toRad :: "real \<Rightarrow> real" where
  "toRad deg = (deg * pi) / 180"

definition haversine :: "real \<Rightarrow> real \<Rightarrow> real \<Rightarrow> real \<Rightarrow> real" where
  "haversine lat1 lon1 lat2 lon2 =
     (let R = 3959;
          dLat = toRad (lat2 - lat1);
          dLon = toRad (lon2 - lon1);
          a = (sin (dLat / 2))\<^sup>2 +
              cos (toRad lat1) * cos (toRad lat2) * (sin (dLon / 2))\<^sup>2
      in R * 2 * atan2 (sqrt a) (sqrt (1 - a)))"

section \<open>HTTP responses and exceptions\<close>

text \<open>
  What \<open>await fetch(url)\<close> followed by \<open>res.ok\<close> and \<open>await res.json()\<close> can give:
  the promise of \<open>fetch\<close> rejects (no connection, DNS failure); the response has a
  non-success status; the body of a successful response is not JSON, so that
  \<open>res.json()\<close> rejects; or the body parses to a value.
\<close>

datatype 'a response = NetworkFailure | HttpError nat | NotJson | Json 'a

datatype error = MissingCredentials | FetchFailed | AcApiError nat | JsonSyntaxError

section \<open>Zip search of the map\<close>

text \<open>An item of a Nominatim result: \<open>parseFloat\<close> of its \<open>lat\<close> and \<open>lon\<close> strings.\<close>

record nominatim_item =
  item_lat :: real
  item_lon :: real

text \<open>\<open>geocodeZip\<close> of the map: the whole body is inside \<open>try\<close>, every failure is \<open>null\<close>.\<close>

definition geocodeZip ::
  "(string \<Rightarrow> nominatim_item list response) \<Rightarrow> string \<Rightarrow> (real \<times> real) option" where
  "geocodeZip lookup zp =
     (case lookup zp of
        NetworkFailure \<Rightarrow> None
      | HttpError st \<Rightarrow> None
      | NotJson \<Rightarrow> None
      | Json results \<Rightarrow>
          (case results of [] \<Rightarrow> None | r # rest \<Rightarrow> Some (item_lat r, item_lon r)))"

definition isDigit :: "char \<Rightarrow> bool" where
  "isDigit c = (c \<in> set ''0123456789'')"

text \<open>The test \<open>/^\d{5}$/\<close>.\<close>

definition validZip :: "string \<Rightarrow> bool" where
  "validZip z = (length z = 5 \<and> list_all isDigit z)"

record circle =
  center_lat :: real
  center_lng :: real
  radius_m :: real

text \<open>
  The state of the page: the module variables \<open>allPrescribers\<close>, \<open>searchLat\<close>,
  \<open>searchLng\<close>, \<open>searchCircle\<close>, the values of the three controls, what
  \<open>showPrescribers\<close> was last given (each record with its \<open>distance\<close> when it has
  one, and the \<open>isFiltered\<close> flag), the zip markers added to the map and the alerts
  raised. \<open>radiusSelect\<close> is \<open>parseInt\<close> of the value of the radius select. The text
  of the result counter and the view of the map are left out.
\<close>

record app_state =
  allPrescribers :: "prescriber list"
  stateFilter :: string
  zipInput :: string
  radiusSelect :: int
  searchLat :: "real option"
  searchLng :: "real option"
  searchCircle :: "circle option"
  shown :: "(prescriber \<times> real option) list"
  shownFiltered :: bool
  zipMarkers :: "(real \<times> real \<times> string) list"
  alerts :: "string list"

definition showPrescribers :: "(prescriber \<times> real option) list \<Rightarrow> bool \<Rightarrow> app_state \<Rightarrow> app_state" where
  "showPrescribers ps isFiltered s = s\<lparr>shown := ps, shownFiltered := isFiltered\<rparr>"

text \<open>The markers and the cards that \<open>showPrescribers\<close> draws from its argument.\<close>

definition markers :: "app_state \<Rightarrow> (prescriber \<times> real option) list" where
  "markers s = filter (\<lambda>pd. hasCoords (fst pd)) (shown s)"

definition displayList :: "app_state \<Rightarrow> (prescriber \<times> real option) list" where
  "displayList s = (if shownFiltered s then shown s else take 100 (shown s))"

definition plain :: "prescriber list \<Rightarrow> (prescriber \<times> real option) list" where
  "plain ps = map (\<lambda>p. (p, None)) ps"

text \<open>
  The records of \<open>doSearch\<close> within the radius: those of \<open>base\<close> with coordinates, each
  with its distance, kept when the distance is at most the radius, sorted by distance
  (\<open>Array.prototype.sort\<close> is stable, as \<open>sort_key\<close> is).
\<close>

definition nearbyOf :: "real \<Rightarrow> real \<Rightarrow> int \<Rightarrow> prescriber list \<Rightarrow> (prescriber \<times> real) list" where
  "nearbyOf sLat sLng radiusMiles base =
     sort_key snd
       (filter (\<lambda>pd. snd pd \<le> of_int radiusMiles)
          (map (\<lambda>p. (p, haversine sLat sLng (the (lat p)) (the (lng p))))
             (filter hasCoords base)))"

definition doSearch :: "(string \<Rightarrow> nominatim_item list response) \<Rightarrow> app_state \<Rightarrow> app_state" where
  "doSearch lookup s =
     (let zp = trim (zipInput s) in
      if \<not> validZip zp
      then s\<lparr>alerts := alerts s @ [''Please enter a valid 5-digit zip code.'']\<rparr>
      else
        let radiusMiles = radiusSelect s in
        (case geocodeZip lookup zp of
           None \<Rightarrow> s\<lparr>alerts := alerts s @ [''Could not find location for zip code: '' @ zp]\<rparr>
         | Some geo \<Rightarrow>
             let base = getFilteredPrescribers (stateFilter s) (allPrescribers s);
                 nearby = nearbyOf (fst geo) (snd geo) radiusMiles base;
                 s1 = s\<lparr>searchLat := Some (fst geo), searchLng := Some (snd geo)\<rparr>;
                 s2 = showPrescribers (map (\<lambda>pd. (fst pd, Some (snd pd))) nearby) True s1
             in s2\<lparr>searchCircle :=
                      Some \<lparr>center_lat = fst geo, center_lng = snd geo,
                            radius_m = of_int radiusMiles * 1609.34\<rparr>,
                    zipMarkers := zipMarkers s2 @ [(fst geo, snd geo, zp)]\<rparr>))"

definition applyStateFilter :: "app_state \<Rightarrow> app_state" where
  "applyStateFilter s =
     (let st = stateFilter s;
          filtered = getFilteredPrescribers st (allPrescribers s);
          s1 = s\<lparr>searchLat := None, searchLng := None, searchCircle := None\<rparr>
      in showPrescribers (plain filtered) (st \<noteq> []) s1)"

definition clearSearch :: "app_state \<Rightarrow> app_state" where
  "clearSearch s =
     showPrescribers (plain (allPrescribers s)) False
       (s\<lparr>searchLat := None, searchLng := None, searchCircle := None,
          zipInput := [], stateFilter := []\<rparr>)"


section \<open>The pipeline (fetch-prescribers.js): configuration and the outside world\<close>

record config =
  AC_BASE_URL :: "string option"
  AC_API_KEY :: "string option"
  GOOGLE_KEY :: "string option"
  GEOCODER :: string
  ENRICH :: bool
  DRY_RUN :: bool

text \<open>
  A contact of the CRM; its \<open>id\<close>, \<open>email\<close> and \<open>phone\<close> are \<open>contact_id\<close>,
  \<open>contact_email\<close> and \<open>contact_phone\<close> here.
\<close>

record contact =
  contact_id :: string
  firstName :: "string option"
  lastName :: "string option"
  contact_email :: "string option"
  contact_phone :: "string option"
  orgname :: "string option"

text \<open>
  A page of the contact list: \<open>data.contacts || []\<close> and
  \<open>parseInt(data.meta?.total || "0", 10)\<close>, which is \<open>NaN\<close> (here \<open>None\<close>) when the
  reported total is not a number.
\<close>

record contacts_page =
  page_contacts :: "contact list"
  page_total :: "int option"

record field_value =
  fv_field :: nat
  fv_value :: "string option"

text \<open>The body of a Google geocoding answer: its status and the locations of its results.\<close>

record google_geocode =
  g_status :: string
  g_results :: "(real \<times> real) list"

record place =
  place_name :: "string option"
  formatted_address :: "string option"

text \<open>
  The services the pipeline calls, each as the response it gives to a request: the
  contact list by offset, the field values by contact id, the two geocoders by address,
  the places search by query; and \<open>localeCompare\<close> of the platform.
\<close>

record world =
  ac_contacts :: "nat \<Rightarrow> contacts_page response"
  ac_fieldValues :: "string \<Rightarrow> field_value list response"
  nominatim :: "string \<Rightarrow> nominatim_item list response"
  google_maps :: "string \<Rightarrow> google_geocode response"
  google_places :: "string \<Rightarrow> place list response"
  localeCompare :: "string \<Rightarrow> string \<Rightarrow> int"

definition PRESCRIBER_TAG_ID :: string where
  "PRESCRIBER_TAG_ID = ''45''"

definition BATCH_SIZE :: nat where
  "BATCH_SIZE = 100"

definition FIELD_MAP :: "(nat \<times> string) list" where
  "FIELD_MAP =
    [(4, ''address1''), (5, ''address2''), (6, ''city''), (7, ''state''), (8, ''zip''),
     (9, ''specialty''), (23, ''doctorFirstName''), (24, ''doctorLastName''),
     (25, ''practiceName''), (26, ''doctorEmail''), (32, ''npi''), (61, ''practiceType''),
     (111, ''prescriberType'')]"

section \<open>ActiveCampaign API\<close>

text \<open>\<open>acFetch\<close> throws on a non-success status; a rejected \<open>fetch\<close> or \<open>res.json()\<close> throws too.\<close>

definition acFetch :: "'a response \<Rightarrow> error + 'a" where
  "acFetch res =
     (case res of
        NetworkFailure \<Rightarrow> Inl FetchFailed
      | HttpError st \<Rightarrow> Inl (AcApiError st)
      | NotJson \<Rightarrow> Inl JsonSyntaxError
      | Json d \<Rightarrow> Inr d)"

text \<open>\<open>all.length >= total\<close>; a comparison with \<open>NaN\<close> is false.\<close>

definition reached :: "nat \<Rightarrow> int option \<Rightarrow> bool" where
  "reached n tot = (case tot of None \<Rightarrow> False | Some t \<Rightarrow> t \<le> int n)"

text \<open>
  The loop of \<open>fetchAllPrescribers\<close>, from the current \<open>offset\<close> and the contacts
  accumulated so far. \<open>None\<close> is a loop that never ends.
\<close>

partial_function (option) fetchLoop ::
  "(nat \<Rightarrow> contacts_page response) \<Rightarrow> nat \<Rightarrow> contact list \<Rightarrow> (error + contact list) option" where
  "fetchLoop srv offset all =
     (case acFetch (srv offset) of
        Inl e \<Rightarrow> Some (Inl e)
      | Inr data \<Rightarrow>
          (let contacts = page_contacts data;
               all' = all @ contacts;
               tot = page_total data
           in if reached (length all') tot \<or> contacts = [] then Some (Inr all')
              else fetchLoop srv (offset + BATCH_SIZE) all'))"

definition fetchAllPrescribers :: "world \<Rightarrow> (error + contact list) option" where
  "fetchAllPrescribers w = fetchLoop (ac_contacts w) 0 []"

type_synonym fields = "string \<rightharpoonup> string"

definition fetchFieldValues :: "world \<Rightarrow> string \<Rightarrow> error + fields" where
  "fetchFieldValues w contactId =
     (case acFetch (ac_fieldValues w contactId) of
        Inl e \<Rightarrow> Inl e
      | Inr fvs \<Rightarrow>
          Inr (foldl
                (\<lambda>flds fv.
                   (case map_of FIELD_MAP (fv_field fv) of
                      None \<Rightarrow> flds
                    | Some nm \<Rightarrow>
                        if truthy (fv_value fv) then flds(nm \<mapsto> the (fv_value fv))
                        else flds))
                Map.empty fvs))"

section \<open>Geocoding\<close>

record geo =
  geo_lat :: real
  geo_lng :: real
  geo_source :: string

text \<open>
  The pause before every call but the first (\<open>geocodeCount\<close>, \<open>sleep\<close>) changes no
  value and is left out.
\<close>

definition geocodeNominatim :: "world \<Rightarrow> string \<Rightarrow> error + geo option" where
  "geocodeNominatim w addr =
     (case nominatim w addr of
        NetworkFailure \<Rightarrow> Inl FetchFailed
      | HttpError st \<Rightarrow> Inr None
      | NotJson \<Rightarrow> Inl JsonSyntaxError
      | Json results \<Rightarrow>
          (case results of
             [] \<Rightarrow> Inr None
           | r # rest \<Rightarrow>
               Inr (Some \<lparr>geo_lat = item_lat r, geo_lng = item_lon r,
                          geo_source = ''nominatim''\<rparr>)))"

definition geocodeGoogle :: "world \<Rightarrow> string \<Rightarrow> error + geo option" where
  "geocodeGoogle w addr =
     (case google_maps w addr of
        NetworkFailure \<Rightarrow> Inl FetchFailed
      | HttpError st \<Rightarrow> Inr None
      | NotJson \<Rightarrow> Inl JsonSyntaxError
      | Json data \<Rightarrow>
          (if g_status data \<noteq> ''OK'' \<or> g_results data = [] then Inr None
           else let loc = hd (g_results data)
                in Inr (Some \<lparr>geo_lat = fst loc, geo_lng = snd loc, geo_source = ''google''\<rparr>)))"

definition geocode :: "config \<Rightarrow> world \<Rightarrow> string \<Rightarrow> error + geo option" where
  "geocode cfg w addr =
     (if GEOCODER cfg = ''google'' \<and> truthy (GOOGLE_KEY cfg) then geocodeGoogle w addr
      else geocodeNominatim w addr)"



definition placesNoMatch :: "place list response \<Rightarrow> bool" where
  "placesNoMatch res = (case res of Json results \<Rightarrow> results = [] | _ \<Rightarrow> True)"


section \<open>Google Places enrichment\<close>

record enrichment =
  e_healthSystem :: "string option"
  e_googleAddress :: "string option"
  e_verified :: bool

definition noMatch :: enrichment where
  "noMatch = \<lparr>e_healthSystem = None, e_googleAddress = None, e_verified = False\<rparr>"

text \<open>
  The query reads \<open>prescriber.city\<close> and \<open>prescriber.state\<close>, which the record does not
  have (they are under \<open>address\<close>): both are \<open>undefined\<close> and give \<open>""\<close>.
\<close>

definition enrichWithGoogle :: "config \<Rightarrow> world \<Rightarrow> prescriber \<Rightarrow> enrichment" where
  "enrichWithGoogle cfg w p =
     (if \<not> truthy (GOOGLE_KEY cfg) then noMatch
      else
        let query = trim (name p @ '' ophthalmologist '' @ [] @ '' '' @ []) in
        (case google_places w query of
           NetworkFailure \<Rightarrow> noMatch
         | HttpError st \<Rightarrow> noMatch
         | NotJson \<Rightarrow> noMatch
         | Json results \<Rightarrow>
             (case results of
                [] \<Rightarrow> noMatch
              | pl # rest \<Rightarrow>
                  \<lparr>e_healthSystem = orElse (place_name pl) None,
                   e_googleAddress = orElse (formatted_address pl) None,
                   e_verified = True\<rparr>)))"

text \<open>
  The query that \<open>enrichWithGoogle\<close> sends for a record, and the failure of the
  enrichment of that record: there is no key, or the answer to that one query is taken
  as no match.
\<close>

definition placesQuery :: "prescriber \<Rightarrow> string" where
  "placesQuery p = trim (name p @ '' ophthalmologist '' @ [] @ '' '' @ [])"

definition enrichmentFails :: "config \<Rightarrow> world \<Rightarrow> prescriber \<Rightarrow> bool" where
  "enrichmentFails cfg w p =
     (\<not> truthy (GOOGLE_KEY cfg) \<or> placesNoMatch (google_places w (placesQuery p)))"

section \<open>Building a prescriber record\<close>

definition buildAddress :: "fields \<Rightarrow> string" where
  "buildAddress flds =
     join '', ''
       (filterBoolean [flds ''address1'', flds ''address2'', flds ''city'',
                       flds ''state'', flds ''zip''])"

text \<open>\<open>geo?.lat || null\<close>: absent when there is no result and when the number is 0.\<close>

definition numOrNull :: "real option \<Rightarrow> real option" where
  "numOrNull v = (if truthyNum v then v else None)"

definition strOrNull :: "string \<Rightarrow> string option" where
  "strOrNull s = (if s = [] then None else Some s)"

text \<open>The name: the custom fields, else the fields of the contact, else \<open>(unknown)\<close>.\<close>

definition prescriberName :: "contact \<Rightarrow> fields \<Rightarrow> string" where
  "prescriberName c flds =
     (let joined = join '' ''
            (filterBoolean [orElse (flds ''doctorFirstName'') (firstName c),
                            orElse (flds ''doctorLastName'') (lastName c)])
      in if joined = [] then ''(unknown)'' else joined)"

text \<open>
  The block \<open>let geo = null; if (fullAddress) { ... }\<close> of \<open>buildPrescriber\<close>: the
  full address, then the zip alone when the first call returned \<open>null\<close> and there is a
  zip. An exception of \<open>geocode\<close> leaves \<open>buildPrescriber\<close>.
\<close>

definition geocodeWithFallback :: "config \<Rightarrow> world \<Rightarrow> fields \<Rightarrow> string \<Rightarrow> error + geo option" where
  "geocodeWithFallback cfg w flds fullAddress =
     (if fullAddress = [] then Inr None
      else (case geocode cfg w fullAddress of
              Inl e \<Rightarrow> Inl e
            | Inr (Some g) \<Rightarrow> Inr (Some g)
            | Inr None \<Rightarrow>
                if truthy (flds ''zip'')
                then geocode cfg w (the (flds ''zip'') @ '', USA'')
                else Inr None))"

text \<open>The object literal \<open>prescriber\<close> of \<open>buildPrescriber\<close>.\<close>

definition newPrescriber :: "contact \<Rightarrow> fields \<Rightarrow> string \<Rightarrow> string \<Rightarrow> geo option \<Rightarrow> prescriber" where
  "newPrescriber c flds nm fullAddress g =
     \<lparr>pid = contact_id c,
      name = nm,
      email = orElse (orElse (flds ''doctorEmail'') (contact_email c)) None,
      phone = orElse (contact_phone c) None,
      organization = orElse (orElse (orgname c) (flds ''practiceName'')) None,
      specialty = orElse (orElse (flds ''specialty'') (flds ''prescriberType'')) None,
      practiceType = orElse (flds ''practiceType'') None,
      npi = orElse (flds ''npi'') None,
      address =
        \<lparr>street = join '', '' (filterBoolean [flds ''address1'', flds ''address2'']),
         city = orElse (flds ''city'') None,
         state = orElse (flds ''state'') None,
         zipcode = orElse (flds ''zip'') None,
         full = strOrNull fullAddress\<rparr>,
      lat = numOrNull (map_option geo_lat g),
      lng = numOrNull (map_option geo_lng g),
      geoSource = orElse (map_option geo_source g) None,
      healthSystem = None,
      verified = False,
      googleAddress = None\<rparr>"

text \<open>The block \<open>if (ENRICH) { ... }\<close> of \<open>buildPrescriber\<close>.\<close>

definition applyEnrichment :: "config \<Rightarrow> world \<Rightarrow> prescriber \<Rightarrow> prescriber" where
  "applyEnrichment cfg w p =
     (if ENRICH cfg
      then let en = enrichWithGoogle cfg w p
           in p\<lparr>healthSystem := e_healthSystem en,
                verified := e_verified en,
                googleAddress :=
                  (if truthy (e_googleAddress en) then e_googleAddress en else googleAddress p)\<rparr>
      else p)"

definition buildPrescriber :: "config \<Rightarrow> world \<Rightarrow> contact \<Rightarrow> fields \<Rightarrow> error + prescriber" where
  "buildPrescriber cfg w c flds =
     (let nm = prescriberName c flds;
          fullAddress = buildAddress flds
      in (case geocodeWithFallback cfg w flds fullAddress of
            Inl e \<Rightarrow> Inl e
          | Inr g \<Rightarrow> Inr (applyEnrichment cfg w (newPrescriber c flds nm fullAddress g))))"

section \<open>Main\<close>

text \<open>
  The counters of the loop of \<open>main\<close> after one more record: \<open>geocoded\<close> and \<open>skipped\<close>.
\<close>

definition countRecord :: "prescriber \<Rightarrow> nat \<times> nat \<Rightarrow> nat \<times> nat" where
  "countRecord p gs =
     (if truthyNum (lat p) \<and> truthyNum (lng p) then (fst gs + 1, snd gs)
      else if \<not> truthy (full (address p)) then (fst gs, snd gs + 1)
      else gs)"

text \<open>
  The counters agree with the records: \<open>geocoded\<close> counts the records with
  \<open>p.lat && p.lng\<close>, \<open>skipped\<close> those without it and without \<open>address.full\<close>.
\<close>

definition counted :: "prescriber list \<times> nat \<times> nat \<Rightarrow> bool" where
  "counted acc \<longleftrightarrow>
     fst (snd acc) = length (filter hasCoords (fst acc)) \<and>
     snd (snd acc) =
       length (filter (\<lambda>p. \<not> hasCoords p \<and> \<not> truthy (full (address p))) (fst acc))"

text \<open>
  The loop of \<open>main\<close> over the contacts, from the records and counters so far. Nothing
  in the loop catches: an exception of \<open>fetchFieldValues\<close> or \<open>buildPrescriber\<close> leaves
  it and reaches the handler of \<open>main\<close>, which exits with status 1.
\<close>

fun processContacts ::
  "config \<Rightarrow> world \<Rightarrow> contact list \<Rightarrow> prescriber list \<times> nat \<times> nat \<Rightarrow>
     error + prescriber list \<times> nat \<times> nat" where
  "processContacts cfg w [] acc = Inr acc"
| "processContacts cfg w (c # cs) acc =
     (case fetchFieldValues w (contact_id c) of
        Inl e \<Rightarrow> Inl e
      | Inr flds \<Rightarrow>
          (case buildPrescriber cfg w c flds of
             Inl e \<Rightarrow> Inl e
           | Inr p \<Rightarrow> processContacts cfg w cs (fst acc @ [p], countRecord p (snd acc))))"

text \<open>\<open>xs.sort(cmp)\<close>, a stable sort by a comparator, as an insertion sort.\<close>

fun insertBy :: "('a \<Rightarrow> 'a \<Rightarrow> int) \<Rightarrow> 'a \<Rightarrow> 'a list \<Rightarrow> 'a list" where
  "insertBy cmp x [] = [x]"
| "insertBy cmp x (y # ys) = (if cmp x y \<le> 0 then x # y # ys else y # insertBy cmp x ys)"

definition sortBy :: "('a \<Rightarrow> 'a \<Rightarrow> int) \<Rightarrow> 'a list \<Rightarrow> 'a list" where
  "sortBy cmp xs = foldr (insertBy cmp) xs []"

text \<open>The output document, without its time stamp \<open>generated\<close>.\<close>

record output_document =
  totalCount :: nat
  geocoded :: nat
  noAddress :: nat
  prescribers :: "prescriber list"

definition OUTPUT_PATH :: string where
  "OUTPUT_PATH = ''data/prescribers.json''"

definition PUBLIC_OUTPUT :: string where
  "PUBLIC_OUTPUT = ''public/prescribers.json''"

text \<open>
  A run of \<open>main\<close>: \<open>None\<close> when the pagination never ends, \<open>Inl e\<close> when the run exits
  with status 1, otherwise the document and the paths it was written to.
\<close>

definition main :: "config \<Rightarrow> world \<Rightarrow> (error + output_document \<times> string list) option" where
  "main cfg w =
     (if \<not> truthy (AC_BASE_URL cfg) \<or> \<not> truthy (AC_API_KEY cfg) then Some (Inl MissingCredentials)
      else
        (case fetchAllPrescribers w of
           None \<Rightarrow> None
         | Some (Inl e) \<Rightarrow> Some (Inl e)
         | Some (Inr contacts) \<Rightarrow>
             (case processContacts cfg w contacts ([], 0, 0) of
                Inl e \<Rightarrow> Some (Inl e)
              | Inr acc \<Rightarrow>
                  let ps = fst acc;
                      output =
                        \<lparr>totalCount = length ps,
                         geocoded = fst (snd acc),
                         noAddress = snd (snd acc),
                         prescribers = sortBy (\<lambda>a b. localeCompare w (name a) (name b)) ps\<rparr>
                  in Some (Inr (output, if DRY_RUN cfg then [] else [OUTPUT_PATH, PUBLIC_OUTPUT])))))"


section \<open>Pages of the contact list\<close>

text \<open>
  The request number \<open>i\<close> of the pagination asks for offset \<open>i * BATCH_SIZE\<close>.
  \<open>pageContacts srv i\<close> are the contacts of its answer, \<open>accumulated srv k\<close> is the length
  of \<open>all\<close> after the answers \<open>0..k\<close>, and \<open>stopsAt srv k\<close> says that the loop, once at
  request \<open>k\<close>, leaves there: the call throws, the page is empty, or the accumulated count
  has reached the total that this answer reports.
\<close>

definition pageContacts :: "(nat \<Rightarrow> contacts_page response) \<Rightarrow> nat \<Rightarrow> contact list" where
  "pageContacts srv i =
     (case srv (i * BATCH_SIZE) of Json d \<Rightarrow> page_contacts d | _ \<Rightarrow> [])"

definition accumulated :: "(nat \<Rightarrow> contacts_page response) \<Rightarrow> nat \<Rightarrow> nat" where
  "accumulated srv k = length (concat (map (pageContacts srv) [0..<Suc k]))"

definition stopsAt :: "(nat \<Rightarrow> contacts_page response) \<Rightarrow> nat \<Rightarrow> bool" where
  "stopsAt srv k =
     (case srv (k * BATCH_SIZE) of
        Json d \<Rightarrow> page_contacts d = [] \<or> reached (accumulated srv k) (page_total d)
      | _ \<Rightarrow> True)"

text \<open>
  What the loop returns when it leaves at request \<open>k\<close>: the exception of the call, or
  the contacts of the answers \<open>0..k\<close> in order.
\<close>

definition resultAt :: "(nat \<Rightarrow> contacts_page response) \<Rightarrow> nat \<Rightarrow> error + contact list" where
  "resultAt srv k =
     (case acFetch (srv (k * BATCH_SIZE)) of
        Inl e \<Rightarrow> Inl e
      | Inr d \<Rightarrow> Inr (concat (map (pageContacts srv) [0..<Suc k])))"


section \<open>Example data\<close>

definition examplePrescriber ::
  "string \<Rightarrow> string option \<Rightarrow> real option \<Rightarrow> real option \<Rightarrow> prescriber" where
  "examplePrescriber nm st la lo =
     \<lparr>pid = nm, name = nm, email = None, phone = None, organization = None, specialty = None,
      practiceType = None, npi = None,
      address = \<lparr>street = [], city = None, state = st, zipcode = None, full = None\<rparr>,
      lat = la, lng = lo, geoSource = None, healthSystem = None, verified = False,
      googleAddress = None\<rparr>"

definition inCA :: prescriber where
  "inCA = examplePrescriber ''Ann Adams'' (Some ''CA'') (Some 40) (Some (- 74))"

definition inCalifornia :: prescriber where
  "inCalifornia = examplePrescriber ''Bob Smith'' (Some '' california'') (Some 41) (Some (- 74))"

definition inOntario :: prescriber where
  "inOntario = examplePrescriber ''Cy Young'' (Some ''Ontario'') None None"

definition exampleContact :: "string \<Rightarrow> contact" where
  "exampleContact i =
     \<lparr>contact_id = i, firstName = Some ''Ada'', lastName = Some ''Lee'', contact_email = None,
      contact_phone = None, orgname = None\<rparr>"

text \<open>A contact list that reports 5 contacts and has 3: its second page is empty.\<close>

definition misreportingServer :: "nat \<Rightarrow> contacts_page response" where
  "misreportingServer offset =
     (if offset = 0
      then Json \<lparr>page_contacts = [exampleContact ''1'', exampleContact ''2'', exampleContact ''3''],
                 page_total = Some 5\<rparr>
      else Json \<lparr>page_contacts = [], page_total = Some 5\<rparr>)"

text \<open>
  Contact 1 has an address that Nominatim finds. Contact 2 has an address that Nominatim
  does not find (empty result), and its zip fallback is answered with status 503.
  Contact 3 has no field values. The places search is unreachable.
\<close>

definition exampleFieldValues :: "string \<Rightarrow> field_value list response" where
  "exampleFieldValues contactId =
     (if contactId = ''1''
      then Json [\<lparr>fv_field = 4, fv_value = Some ''1 Main St''\<rparr>,
                 \<lparr>fv_field = 7, fv_value = Some ''IL''\<rparr>,
                 \<lparr>fv_field = 8, fv_value = Some ''62701''\<rparr>]
      else if contactId = ''2''
      then Json [\<lparr>fv_field = 4, fv_value = Some ''9 Elm St''\<rparr>,
                 \<lparr>fv_field = 8, fv_value = Some ''99999''\<rparr>]
      else Json [])"

definition exampleNominatim :: "string \<Rightarrow> nominatim_item list response" where
  "exampleNominatim addr =
     (if addr = ''1 Main St, IL, 62701'' then Json [\<lparr>item_lat = 39.8, item_lon = - 89.6\<rparr>]
      else if addr = ''99999, USA'' then HttpError 503
      else Json [])"

definition compareStrings :: "string \<Rightarrow> string \<Rightarrow> int" where
  "compareStrings a b = (if a < b then - 1 else if a = b then 0 else 1)"

definition exampleWorld :: world where
  "exampleWorld =
     \<lparr>ac_contacts = misreportingServer,
      ac_fieldValues = exampleFieldValues,
      nominatim = exampleNominatim,
      google_maps = (\<lambda>addr. HttpError 403),
      google_places = (\<lambda>query. NetworkFailure),
      localeCompare = compareStrings\<rparr>"

definition exampleConfig :: config where
  "exampleConfig =
     \<lparr>AC_BASE_URL = Some ''myeyes.activehosted.com'', AC_API_KEY = Some ''secret'',
      GOOGLE_KEY = Some ''key'', GEOCODER = ''nominatim'', ENRICH = True, DRY_RUN = False\<rparr>"

text \<open>The field values of contacts 1 and 2 as \<open>fetchFieldValues\<close> maps them.\<close>

definition fields1 :: fields where
  "fields1 = [''address1'' \<mapsto> ''1 Main St'', ''state'' \<mapsto> ''IL'', ''zip'' \<mapsto> ''62701'']"

definition fields2 :: fields where
  "fields2 = [''address1'' \<mapsto> ''9 Elm St'', ''zip'' \<mapsto> ''99999'']"

text \<open>The record built for contact \<open>i\<close> from its fields and the result of geocoding.\<close>

definition exampleRecord ::
  "config \<Rightarrow> world \<Rightarrow> string \<Rightarrow> fields \<Rightarrow> geo option \<Rightarrow> prescriber" where
  "exampleRecord cfg w i flds g =
     applyEnrichment cfg w
       (newPrescriber (exampleContact i) flds (prescriberName (exampleContact i) flds)
          (buildAddress flds) g)"

definition springfield :: geo where
  "springfield = \<lparr>geo_lat = 39.8, geo_lng = - 89.6, geo_source = ''nominatim''\<rparr>"


text \<open>The same world when Nominatim cannot be reached.\<close>

definition nominatimUnreachable :: world where
  "nominatimUnreachable = exampleWorld\<lparr>nominatim := (\<lambda>addr. NetworkFailure)\<rparr>"

text \<open>
  The paid geocoder selected, and a world in which it places every address in London on
  the prime meridian: latitude 51.5, longitude 0.
\<close>

definition googleConfig :: config where
  "googleConfig = exampleConfig\<lparr>GEOCODER := ''google''\<rparr>"

definition onTheMeridian :: world where
  "onTheMeridian =
     exampleWorld\<lparr>google_maps :=
       (\<lambda>addr. Json \<lparr>g_status = ''OK'', g_results = [(51.5, 0)]\<rparr>)\<rparr>"

definition meridianPoint :: geo where
  "meridianPoint = \<lparr>geo_lat = 51.5, geo_lng = 0, geo_source = ''google''\<rparr>"


text \<open>A contact list whose total is not a number and whose pages never end.\<close>

definition endlessServer :: "nat \<Rightarrow> contacts_page response" where
  "endlessServer offset =
     Json \<lparr>page_contacts = [exampleContact ''1''], page_total = None\<rparr>"

text \<open>
  A page in use: Ann in \<open>CA\<close> and Bob in \<open>california\<close> one degree of latitude apart, Cy
  in Ontario without coordinates; the state filter on \<open>CA\<close>, radius 10 miles.
\<close>

definition exampleState :: app_state where
  "exampleState =
     \<lparr>allPrescribers = [inCA, inOntario, inCalifornia],
      stateFilter = ''CA'',
      zipInput = '' 10001 '',
      radiusSelect = 10,
      searchLat = None,
      searchLng = None,
      searchCircle = None,
      shown = plain [inCA, inCalifornia],
      shownFiltered = True,
      zipMarkers = [],
      alerts = []\<rparr>"

text \<open>A zip lookup that knows \<open>10001\<close> only, and answers 503 for \<open>99999\<close>.\<close>

definition exampleLookup :: "string \<Rightarrow> nominatim_item list response" where
  "exampleLookup zp =
     (if zp = ''10001'' then Json [\<lparr>item_lat = 40, item_lon = - 74\<rparr>]
      else if zp = ''99999'' then HttpError 503
      else Json [])"

section \<open>Lemmas on strings\<close>

lemma includesStr_sublist: "includesStr s q \<longleftrightarrow> sublist q s"
  by (induction s) (auto simp: sublist_Cons_right)

lemma map_of_letters_None:
  "c \<notin> set lowerLetters \<Longrightarrow> map_of (zip lowerLetters upperLetters) c = None"
  "c \<notin> set upperLetters \<Longrightarrow> map_of (zip upperLetters lowerLetters) c = None"
  by (simp_all add: map_of_eq_None_iff lowerLetters_def upperLetters_def)

lemma toLower_toUpper_char: "toLowerChar (toUpperChar c) = toLowerChar c"
proof (cases "c \<in> set lowerLetters")
  case True
  then show ?thesis
    by (auto simp: lowerLetters_def upperLetters_def toUpperChar_def toLowerChar_def)
next
  case False
  then show ?thesis by (simp add: toUpperChar_def map_of_letters_None)
qed

lemma toLower_toLower_char: "toLowerChar (toLowerChar c) = toLowerChar c"
proof (cases "c \<in> set upperLetters")
  case True
  then show ?thesis
    by (auto simp: lowerLetters_def upperLetters_def toLowerChar_def)
next
  case False
  then show ?thesis by (simp add: toLowerChar_def map_of_letters_None)
qed

lemma isWhiteSpace_toUpperChar: "isWhiteSpace (toUpperChar c) = isWhiteSpace c"
proof (cases "c \<in> set lowerLetters")
  case True
  then show ?thesis
    by (auto simp: lowerLetters_def upperLetters_def toUpperChar_def isWhiteSpace_def)
next
  case False
  then show ?thesis by (simp add: toUpperChar_def map_of_letters_None)
qed

lemma isWhiteSpace_toLowerChar: "isWhiteSpace (toLowerChar c) = isWhiteSpace c"
proof (cases "c \<in> set upperLetters")
  case True
  then show ?thesis
    by (auto simp: lowerLetters_def upperLetters_def toLowerChar_def isWhiteSpace_def)
next
  case False
  then show ?thesis by (simp add: toLowerChar_def map_of_letters_None)
qed

text \<open>\<open>trim\<close> commutes with a map on characters that keeps white space white space.\<close>

lemma trim_map:
  assumes "\<And>c. isWhiteSpace (f c) = isWhiteSpace c"
  shows "trim (map f s) = map f (trim s)"
proof -
  have "isWhiteSpace \<circ> f = isWhiteSpace" using assms by (simp add: fun_eq_iff)
  then show ?thesis by (simp add: trim_def dropWhile_map rev_map)
qed

lemma query_toUpperCase: "toLowerCase (trim (toUpperCase q)) = toLowerCase (trim q)"
proof -
  have "trim (map toUpperChar q) = map toUpperChar (trim q)"
    by (rule trim_map) (rule isWhiteSpace_toUpperChar)
  then show ?thesis
    unfolding toUpperCase_def toLowerCase_def by (simp add: toLower_toUpper_char)
qed

lemma query_toLowerCase: "toLowerCase (trim (toLowerCase q)) = toLowerCase (trim q)"
proof -
  have "trim (map toLowerChar q) = map toLowerChar (trim q)"
    by (rule trim_map) (rule isWhiteSpace_toLowerChar)
  then show ?thesis
    unfolding toLowerCase_def by (simp add: toLower_toLower_char)
qed

section \<open>The state filter\<close>

lemma VALID_CODES_length: "c \<in> set VALID_CODES \<Longrightarrow> length c = 2"
  by (auto simp: VALID_CODES_def STATE_CODES_def)

lemma normalizeState_valid: "normalizeState raw = Some c \<Longrightarrow> c \<in> set VALID_CODES"
  unfolding normalizeState_def Let_def
  by (auto simp: VALID_CODES_def split: if_splits option.splits dest!: map_of_SomeD
      intro: rev_image_eqI)

text \<open>Every full name of the table gives its code, and every code gives itself.\<close>

lemma names_and_codes:
  "list_all (\<lambda>nc. normalizeState (Some (fst nc)) = Some (snd nc) \<and>
                   normalizeState (Some (snd nc)) = Some (snd nc)) STATE_CODES"
  by code_simp

lemma normalizeState_inCA: "normalizeState (state (address inCA)) = Some ''CA''"
  unfolding inCA_def examplePrescriber_def by code_simp

lemma normalizeState_inOntario: "normalizeState (state (address inOntario)) = None"
  unfolding inOntario_def examplePrescriber_def by code_simp

lemma normalizeState_inCalifornia: "normalizeState (state (address inCalifornia)) = Some ''CA''"
  unfolding inCalifornia_def examplePrescriber_def by code_simp

text \<open>The options offered by the state select are codes of the table.\<close>

lemma populateStateFilter_codes:
  assumes "c \<in> set (populateStateFilter ps)"
  shows "c \<in> set VALID_CODES"
proof -
  let ?f = "\<lambda>p::prescriber. normalizeState (state (address p))"
  from assms have "c \<in> set (map the (filter truthy (map ?f ps)))"
    by (simp add: populateStateFilter_def filterBoolean_def)
  then obtain v where v: "v \<in> set (filter truthy (map ?f ps))" "c = the v"
    by auto
  then have tv: "truthy v" and "v \<in> ?f ` set ps" by auto
  then obtain p where p: "v = ?f p" by blast
  from tv v(2) have "v = Some c"
    by (cases v) (simp_all add: truthy_def)
  with p have "?f p = Some c" by simp
  then show ?thesis by (rule normalizeState_valid)
qed

text \<open>
  C1. The state filter of the deployed map (\<open>public/js/app.js\<close>) compares the chosen
  code with the normalised state of each record. The normalised state is a 2-letter code
  of the table or nothing: \<open>California\<close> and \<open>CA\<close> both give \<open>CA\<close>, every full name of
  the table gives its code and every code itself, \<open>Ontario\<close> gives nothing; the
  options of the state select are such codes. With a state
  chosen, exactly the records whose normalised state equals it are kept, so a record with
  an unrecognised state is in no state-filtered view; with no state chosen all records
  are kept. Changing the state shows the records kept, and clearing shows all records.
\<close>

theorem state_filter_exact_match:
  "normalizeState (Some ''California'') = Some ''CA'' \<and>
   normalizeState (Some ''CA'') = Some ''CA'' \<and>
   normalizeState (Some ''Ontario'') = None \<and>
   (\<forall>c. normalizeState raw = Some c \<longrightarrow> c \<in> set VALID_CODES \<and> length c = 2) \<and>
   (\<forall>nc \<in> set STATE_CODES. normalizeState (Some (fst nc)) = Some (snd nc) \<and>
                            normalizeState (Some (snd nc)) = Some (snd nc)) \<and>
   (\<forall>c \<in> set (populateStateFilter ps). c \<in> set VALID_CODES) \<and>
   (st \<noteq> [] \<longrightarrow>
      getFilteredPrescribers st ps =
        filter (\<lambda>p. normalizeState (state (address p)) = Some st) ps) \<and>
   (st \<noteq> [] \<and> normalizeState (state (address p)) = None \<longrightarrow>
      p \<notin> set (getFilteredPrescribers st ps)) \<and>
   getFilteredPrescribers [] ps = ps \<and>
   shown (applyStateFilter s) =
     plain (getFilteredPrescribers (stateFilter s) (allPrescribers s)) \<and>
   shown (clearSearch s) = plain (allPrescribers s)"
proof -
  have a: "normalizeState (Some ''California'') = Some ''CA''" by code_simp
  have b: "normalizeState (Some ''CA'') = Some ''CA''" by code_simp
  have c: "normalizeState (Some ''Ontario'') = None" by code_simp
  have d: "\<forall>c. normalizeState raw = Some c \<longrightarrow> c \<in> set VALID_CODES \<and> length c = 2"
    using normalizeState_valid VALID_CODES_length by blast
  have e: "\<forall>nc \<in> set STATE_CODES. normalizeState (Some (fst nc)) = Some (snd nc) \<and>
                            normalizeState (Some (snd nc)) = Some (snd nc)"
    using names_and_codes by (simp add: list_all_iff)
  have o: "\<forall>c \<in> set (populateStateFilter ps). c \<in> set VALID_CODES"
    using populateStateFilter_codes by blast
  have f: "st \<noteq> [] \<longrightarrow> getFilteredPrescribers st ps =
        filter (\<lambda>p. normalizeState (state (address p)) = Some st) ps"
    by (simp add: getFilteredPrescribers_def)
  have g: "st \<noteq> [] \<and> normalizeState (state (address p)) = None \<longrightarrow>
      p \<notin> set (getFilteredPrescribers st ps)"
    by (simp add: getFilteredPrescribers_def)
  have h: "getFilteredPrescribers [] ps = ps"
    by (simp add: getFilteredPrescribers_def)
  have v: "shown (applyStateFilter s) =
             plain (getFilteredPrescribers (stateFilter s) (allPrescribers s))"
    by (simp add: applyStateFilter_def Let_def showPrescribers_def)
  have u: "shown (clearSearch s) = plain (allPrescribers s)"
    by (simp add: clearSearch_def showPrescribers_def)
  from a b c d e o f g h v u show ?thesis by blast
qed

theorem state_filter_exact_match_witness:
  "getFilteredPrescribers ''CA'' [inCA, inOntario, inCalifornia] = [inCA, inCalifornia] \<and>
   inOntario \<notin> set (getFilteredPrescribers ''CA'' [inCA, inOntario, inCalifornia]) \<and>
   getFilteredPrescribers [] [inCA, inOntario, inCalifornia] = [inCA, inOntario, inCalifornia] \<and>
   normalizeState (Some ''TEXAS'') = Some ''TX'' \<and>
   shown (applyStateFilter exampleState) = plain [inCA, inCalifornia] \<and>
   shown (clearSearch exampleState) = plain [inCA, inOntario, inCalifornia]"
proof -
  have ne: "''CA'' \<noteq> []" by simp
  have tx: "(''TEXAS'', ''TX'') \<in> set STATE_CODES" by (simp add: STATE_CODES_def)
  note t = state_filter_exact_match[where raw = "Some ''CA''" and st = "''CA''"
      and ps = "[inCA, inOntario, inCalifornia]" and p = inOntario and s = exampleState]
  from t ne have "getFilteredPrescribers ''CA'' [inCA, inOntario, inCalifornia] =
        filter (\<lambda>p. normalizeState (state (address p)) = Some ''CA'') [inCA, inOntario, inCalifornia]"
    by blast
  then have f: "getFilteredPrescribers ''CA'' [inCA, inOntario, inCalifornia] = [inCA, inCalifornia]"
    by (simp add: normalizeState_inCA normalizeState_inOntario normalizeState_inCalifornia)
  from t ne normalizeState_inOntario
  have g: "inOntario \<notin> set (getFilteredPrescribers ''CA'' [inCA, inOntario, inCalifornia])"
    by blast
  from t have h: "getFilteredPrescribers [] [inCA, inOntario, inCalifornia] = [inCA, inOntario, inCalifornia]"
    by blast
  from t tx have "normalizeState (Some (fst (''TEXAS'', ''TX''))) = Some (snd (''TEXAS'', ''TX''))"
    by blast
  then have s4: "normalizeState (Some ''TEXAS'') = Some ''TX''" by simp
  have es: "stateFilter exampleState = ''CA''"
    "allPrescribers exampleState = [inCA, inOntario, inCalifornia]"
    by (simp_all add: exampleState_def)
  from t have "shown (applyStateFilter exampleState) =
      plain (getFilteredPrescribers (stateFilter exampleState) (allPrescribers exampleState))"
    by blast
  then have v: "shown (applyStateFilter exampleState) = plain [inCA, inCalifornia]"
    by (simp only: es f)
  from t have "shown (clearSearch exampleState) = plain (allPrescribers exampleState)"
    by blast
  then have u: "shown (clearSearch exampleState) = plain [inCA, inOntario, inCalifornia]"
    by (simp only: es)
  from f g h s4 v u show ?thesis by blast
qed

section \<open>The name search\<close>

lemma matches_sublist:
  assumes "q \<noteq> []"
  shows "(nm \<noteq> [] \<and> includesStr nm q) = sublist q nm"
proof (cases nm)
  case Nil
  with assms show ?thesis by simp
next
  case (Cons c cs)
  then show ?thesis by (simp only: includesStr_sublist) simp
qed

lemma doctorSearch_sublist:
  assumes "2 \<le> length (trim q)"
  shows "doctorSearch q ps =
           Some (take 20 (filter (\<lambda>p. sublist (toLowerCase (trim q)) (toLowerCase (name p))) ps))"
proof -
  let ?query = "toLowerCase (trim q)"
  have len: "\<not> length ?query < 2" using assms by (simp add: toLowerCase_def)
  then have ne: "?query \<noteq> []" by auto
  have step: "doctorSearch q ps =
          Some (take 20 (filter (\<lambda>p. name p \<noteq> [] \<and> includesStr (toLowerCase (name p)) ?query) ps))"
    unfolding doctorSearch_def Let_def using len by (simp only: if_False)
  have m: "(name p \<noteq> [] \<and> includesStr (toLowerCase (name p)) ?query) =
           sublist ?query (toLowerCase (name p))" for p
  proof -
    have "(name p \<noteq> []) = (toLowerCase (name p) \<noteq> [])" by (simp add: toLowerCase_def)
    then show ?thesis
      using matches_sublist[OF ne, of "toLowerCase (name p)"] by (simp only:)
  qed
  show ?thesis using step by (simp only: m)
qed

lemma doctorSearch_case:
  "doctorSearch (toUpperCase q) ps = doctorSearch q ps"
  "doctorSearch (toLowerCase q) ps = doctorSearch q ps"
  unfolding doctorSearch_def by (simp_all only: query_toUpperCase query_toLowerCase)

text \<open>Below the minimum length the dropdown is hidden.\<close>

lemma doctorSearch_short: "length (trim q) < 2 \<Longrightarrow> doctorSearch q ps = None"
  by (simp add: doctorSearch_def toLowerCase_def)

lemma sublist_take_filter:
  assumes "p \<in> set (take n (filter (\<lambda>p. sublist q (f p)) ps))"
  shows "p \<in> set ps \<and> (\<exists>pre post. f p = pre @ q @ post)"
proof -
  from assms have "p \<in> set (filter (\<lambda>p. sublist q (f p)) ps)" by (rule in_set_takeD)
  then show ?thesis by (simp add: sublist_def)
qed

text \<open>
  C4. The name search of the deployed map. For a query whose trimmed text has at least
  2 characters, the handler that runs on every change of the search box shows the first
  20 records, in the order of the data, whose name in lower case contains the trimmed
  query in lower case as a contiguous block; the case of the query does not matter.
\<close>

theorem name_search:
  assumes "2 \<le> length (trim q)"
  shows "doctorSearch q ps =
           Some (take 20 (filter (\<lambda>p. sublist (toLowerCase (trim q)) (toLowerCase (name p))) ps)) \<and>
         doctorSearch (toUpperCase q) ps = doctorSearch q ps \<and>
         doctorSearch (toLowerCase q) ps = doctorSearch q ps \<and>
         (\<exists>ms. doctorSearch q ps = Some ms \<and> length ms \<le> 20 \<and>
               (\<forall>p \<in> set ms. p \<in> set ps \<and>
                  (\<exists>pre post. toLowerCase (name p) = pre @ toLowerCase (trim q) @ post)))"
proof -
  let ?ms = "take 20 (filter (\<lambda>p. sublist (toLowerCase (trim q)) (toLowerCase (name p))) ps)"
  have a: "doctorSearch q ps = Some ?ms" by (rule doctorSearch_sublist[OF assms])
  have l: "length ?ms \<le> 20" by simp
  have d: "\<forall>p \<in> set ?ms. p \<in> set ps \<and>
             (\<exists>pre post. toLowerCase (name p) = pre @ toLowerCase (trim q) @ post)"
    using sublist_take_filter[of _ 20 "toLowerCase (trim q)" "\<lambda>p. toLowerCase (name p)" ps]
    by blast
  from a l d have e: "\<exists>ms. doctorSearch q ps = Some ms \<and> length ms \<le> 20 \<and>
               (\<forall>p \<in> set ms. p \<in> set ps \<and>
                  (\<exists>pre post. toLowerCase (name p) = pre @ toLowerCase (trim q) @ post))"
    by blast
  from a doctorSearch_case[of q ps] e show ?thesis by blast
qed

theorem name_search_witness:
  "2 \<le> length (trim '' SMI'') \<and>
   doctorSearch '' SMI'' [inCA, inOntario, inCalifornia] = Some [inCalifornia]"
proof -
  have t: "trim '' SMI'' = ''SMI''" by code_simp
  have h: "2 \<le> length (trim '' SMI'')" by (simp add: t)
  have q: "toLowerCase ''SMI'' = ''smi''" by code_simp
  have n1: "toLowerCase (name inCA) = ''ann adams''"
    unfolding inCA_def examplePrescriber_def by code_simp
  have n2: "toLowerCase (name inOntario) = ''cy young''"
    unfolding inOntario_def examplePrescriber_def by code_simp
  have n3: "toLowerCase (name inCalifornia) = ''bob smith''"
    unfolding inCalifornia_def examplePrescriber_def by code_simp
  have s1: "\<not> sublist ''smi'' ''ann adams''" unfolding includesStr_sublist[symmetric] by simp
  have s2: "\<not> sublist ''smi'' ''cy young''" unfolding includesStr_sublist[symmetric] by simp
  have s3: "sublist ''smi'' ''bob smith''" unfolding includesStr_sublist[symmetric] by simp
  from name_search[OF h, of "[inCA, inOntario, inCalifornia]"]
  have "doctorSearch '' SMI'' [inCA, inOntario, inCalifornia] =
          Some (take 20 (filter (\<lambda>p. sublist (toLowerCase (trim '' SMI'')) (toLowerCase (name p)))
                           [inCA, inOntario, inCalifornia]))"
    by blast
  then have "doctorSearch '' SMI'' [inCA, inOntario, inCalifornia] = Some [inCalifornia]"
    by (simp add: t q n1 n2 n3 s1 s2 s3)
  with h show ?thesis by blast
qed

section \<open>Bounds on \<open>pi\<close>\<close>

lemma sum12:
  "(\<Sum>m<(12::nat). g m) =
     g 0 + g 1 + g 2 + g 3 + g 4 + g 5 + g 6 + g 7 + g 8 + g 9 + g 10 + (g 11 :: real)"
  by (simp add: eval_nat_numeral)

lemma cos_poly:
  "(\<Sum>m<12. cos_coeff m * x ^ m) =
     1 - x^2 / 2 + x^4 / 24 - x^6 / 720 + x^8 / 40320 - x^10 / 3628800"
  unfolding sum12 by (simp add: cos_coeff_def fact_numeral)

lemma cos_remainder:
  assumes "0 < x"
  shows "\<bar>cos x - (\<Sum>m<12. cos_coeff m * x ^ m)\<bar> \<le> x ^ 12 / fact 12"
proof -
  from Maclaurin_cos_expansion2[OF assms, of 12] obtain t where
    t: "cos x = (\<Sum>m<12. cos_coeff m * x ^ m) + (cos (t + 1/2 * real 12 * pi) / fact 12) * x ^ 12"
    by auto
  have "\<bar>(cos (t + 1/2 * real 12 * pi) / fact 12) * x ^ 12\<bar> =
        \<bar>cos (t + 1/2 * real 12 * pi)\<bar> * (x ^ 12 / fact 12)"
    using assms by (simp add: abs_mult)
  also have "\<dots> \<le> 1 * (x ^ 12 / fact 12)"
    using assms by (intro mult_right_mono) auto
  finally show ?thesis using t by simp
qed

lemma pi_upper: "pi < 3.1416"
proof -
  have "cos (1.5708::real) \<le> (\<Sum>m<12. cos_coeff m * 1.5708 ^ m) + 1.5708 ^ 12 / fact 12"
    using cos_remainder[of "1.5708"] by (simp add: abs_le_iff)
  also have "\<dots> < 0" unfolding cos_poly by (simp add: fact_numeral power_divide)
  finally have neg: "cos (1.5708::real) < 0" .
  have "\<not> 1.5708 \<le> pi / 2"
  proof
    assume "1.5708 \<le> pi / 2"
    then have "0 \<le> cos (1.5708::real)" by (intro cos_ge_zero) auto
    with neg show False by simp
  qed
  then show ?thesis by simp
qed

lemma pi_lower: "3.1415 < pi"
proof -
  have "(\<Sum>m<12. cos_coeff m * 1.57075 ^ m) - 1.57075 ^ 12 / fact 12 \<le> cos (1.57075::real)"
    using cos_remainder[of "1.57075"] by (simp add: abs_le_iff)
  moreover have "0 < (\<Sum>m<12. cos_coeff m * (1.57075::real) ^ m) - 1.57075 ^ 12 / fact 12"
    unfolding cos_poly by (simp add: fact_numeral power_divide)
  ultimately have pos: "0 < cos (1.57075::real)" by linarith
  have "\<not> pi / 2 \<le> 1.57075"
  proof
    assume h: "pi / 2 \<le> 1.57075"
    have "cos (1.57075::real) \<le> cos (pi / 2)"
      using h pi_ge_two pi_less_4 by (intro cos_monotone_0_pi_le) auto
    with pos show False by simp
  qed
  then show ?thesis by simp
qed

section \<open>The haversine distance\<close>

lemma haversine_self: "haversine la lo la lo = 0"
  by (simp add: haversine_def toRad_def atan2_def)

lemma sin_half_toRad_sq: "(sin (toRad (a - b) / 2))\<^sup>2 = (sin (toRad (b - a) / 2))\<^sup>2"
proof -
  have "toRad (a - b) / 2 = - (toRad (b - a) / 2)"
    by (simp add: toRad_def field_simps)
  then show ?thesis by (simp only: sin_minus power2_minus)
qed

lemma haversine_sym: "haversine la1 lo1 la2 lo2 = haversine la2 lo2 la1 lo1"
  unfolding haversine_def Let_def
  by (simp add: sin_half_toRad_sq[of la2 la1] sin_half_toRad_sq[of lo2 lo1] mult.commute)

text \<open>The distance when the haversine term is that of one degree.\<close>

lemma one_degree:
  assumes "a = (sin (pi / 360))\<^sup>2"
  shows "3959 * 2 * atan2 (sqrt a) (sqrt (1 - a)) = 3959 * pi / 180"
proof -
  let ?t = "pi / 360"
  have t: "0 < ?t" "?t < pi / 2" by simp_all
  have s: "0 < sin ?t" using t by (intro sin_gt_zero) auto
  have c: "0 < cos ?t" using t by (intro cos_gt_zero_pi) auto
  have sq: "sqrt a = sin ?t" using s assms by simp
  have "1 - a = (cos ?t)\<^sup>2" using assms by (simp add: cos_squared_eq)
  then have cq: "sqrt (1 - a) = cos ?t" using c by simp
  have "atan2 (sin ?t) (cos ?t) = arctan (tan ?t)"
    using c by (simp add: atan2_def tan_def)
  also have "\<dots> = ?t" using t by (intro arctan_tan) auto
  finally have at: "atan2 (sin ?t) (cos ?t) = ?t" .
  show ?thesis unfolding sq cq at by simp
qed

lemma haversine_meridian: "haversine la lo (la + 1) lo = 3959 * pi / 180"
proof -
  have "(sin (toRad (la + 1 - la) / 2))\<^sup>2 +
        cos (toRad la) * cos (toRad (la + 1)) * (sin (toRad (lo - lo) / 2))\<^sup>2 =
        (sin (pi / 360))\<^sup>2"
    by (simp add: toRad_def)
  from one_degree[OF this] show ?thesis
    unfolding haversine_def Let_def by simp
qed

lemma haversine_equator: "haversine 0 lo 0 (lo + 1) = 3959 * pi / 180"
proof -
  have "(sin (toRad (0 - 0) / 2))\<^sup>2 +
        cos (toRad 0) * cos (toRad 0) * (sin (toRad (lo + 1 - lo) / 2))\<^sup>2 =
        (sin (pi / 360))\<^sup>2"
    by (simp add: toRad_def)
  from one_degree[OF this] show ?thesis
    unfolding haversine_def Let_def by simp
qed

lemma equator_bounds: "69.09 < haversine 0 lo 0 (lo + 1) \<and> haversine 0 lo 0 (lo + 1) < 69.10"
  unfolding haversine_equator using pi_lower pi_upper by simp

text \<open>
  C9, as the claim states it, fails on its third part. With the radius 3959 of the code,
  one degree of longitude on the equator is \<open>3959 * pi / 180\<close> miles, about 69.0976: it
  differs from 69.17 by more than 0.07, far more than the rounding of a figure given to
  two decimals (0.005) or of the floating-point evaluation.
\<close>

theorem haversine_equator_counterexample: "\<not> \<bar>haversine 0 0 0 1 - 69.17\<bar> \<le> 0.07"
  using equator_bounds[of 0] by simp

text \<open>
  C9, amended. On the reals, the distance of a point to itself is 0, the distance is
  symmetric, and two points one degree of longitude apart on the equator are
  \<open>3959 * pi / 180\<close> miles apart, between 69.09 and 69.10.
\<close>

theorem haversine_properties:
  "haversine la lo la lo = 0 \<and>
   haversine la1 lo1 la2 lo2 = haversine la2 lo2 la1 lo1 \<and>
   haversine 0 lo 0 (lo + 1) = 3959 * pi / 180 \<and>
   69.09 < haversine 0 lo 0 (lo + 1) \<and> haversine 0 lo 0 (lo + 1) < 69.10"
  using haversine_self[of la lo] haversine_sym[of la1 lo1 la2 lo2] haversine_equator[of lo]
    equator_bounds[of lo]
  by simp

section \<open>The zip search\<close>

lemma nearbyOf_mset:
  "mset (nearbyOf la lo r base) =
     mset (map (\<lambda>p. (p, haversine la lo (the (lat p)) (the (lng p))))
            (filter (\<lambda>p. hasCoords p \<and> haversine la lo (the (lat p)) (the (lng p)) \<le> of_int r)
               base))"
  unfolding nearbyOf_def
  by (simp add: filter_map o_def conj_commute)

lemma nearbyOf_sorted: "sorted (map snd (nearbyOf la lo r base))"
  unfolding nearbyOf_def by (rule sorted_sort_key)

lemma nearbyOf_set:
  "set (nearbyOf la lo r base) =
     (\<lambda>p. (p, haversine la lo (the (lat p)) (the (lng p)))) `
       {p \<in> set base. hasCoords p \<and> haversine la lo (the (lat p)) (the (lng p)) \<le> of_int r}"
  unfolding nearbyOf_def by auto

lemma doSearch_found:
  assumes "validZip (trim (zipInput s))"
    and "geocodeZip lookup (trim (zipInput s)) = Some (la, lo)"
  shows "shown (doSearch lookup s) =
           map (\<lambda>pd. (fst pd, Some (snd pd)))
             (nearbyOf la lo (radiusSelect s)
                (getFilteredPrescribers (stateFilter s) (allPrescribers s)))"
    and "searchLat (doSearch lookup s) = Some la"
    and "searchLng (doSearch lookup s) = Some lo"
  using assms by (simp_all add: doSearch_def Let_def showPrescribers_def)

lemma exampleState_zip: "trim (zipInput exampleState) = ''10001''"
  unfolding exampleState_def by (simp, code_simp)

text \<open>
  C6. A zip search whose zip is well formed and resolves to \<open>(la, lo)\<close> stores these
  coordinates and shows \<open>nearby\<close>: the records of \<open>base\<close> that have coordinates and whose
  haversine distance from \<open>(la, lo)\<close> is at most the selected radius, each once and with
  that distance, in ascending order of distance. \<open>base\<close> is the whole data when no state
  is chosen and the records of the chosen state otherwise. With radius 10 no record
  shown has a distance above 10. A record has coordinates when \<open>p.lat && p.lng\<close> holds.
\<close>

theorem radius_search:
  assumes "validZip (trim (zipInput s))"
    and "geocodeZip lookup (trim (zipInput s)) = Some (la, lo)"
  shows "\<exists>nearby base.
           base = (if stateFilter s = [] then allPrescribers s
                   else filter (\<lambda>p. normalizeState (state (address p)) = Some (stateFilter s))
                          (allPrescribers s)) \<and>
           searchLat (doSearch lookup s) = Some la \<and>
           searchLng (doSearch lookup s) = Some lo \<and>
           shown (doSearch lookup s) = map (\<lambda>pd. (fst pd, Some (snd pd))) nearby \<and>
           mset nearby =
             mset (map (\<lambda>p. (p, haversine la lo (the (lat p)) (the (lng p))))
                    (filter (\<lambda>p. hasCoords p \<and>
                                  haversine la lo (the (lat p)) (the (lng p))
                                    \<le> of_int (radiusSelect s))
                       base)) \<and>
           sorted (map snd nearby) \<and>
           (radiusSelect s = 10 \<longrightarrow> (\<forall>pd \<in> set nearby. snd pd \<le> 10))"
proof -
  let ?base = "getFilteredPrescribers (stateFilter s) (allPrescribers s)"
  let ?nearby = "nearbyOf la lo (radiusSelect s) ?base"
  have b: "?base = (if stateFilter s = [] then allPrescribers s
                   else filter (\<lambda>p. normalizeState (state (address p)) = Some (stateFilter s))
                          (allPrescribers s))"
    by (simp add: getFilteredPrescribers_def)
  have r: "radiusSelect s = 10 \<longrightarrow> (\<forall>pd \<in> set ?nearby. snd pd \<le> 10)"
    by (auto simp: nearbyOf_set)
  from doSearch_found[OF assms] nearbyOf_mset[of la lo "radiusSelect s" ?base]
    nearbyOf_sorted[of la lo "radiusSelect s" ?base] b r
  show ?thesis by (intro exI[of _ ?nearby] exI[of _ ?base]) simp
qed

theorem radius_search_witness:
  "validZip (trim (zipInput exampleState)) \<and>
   geocodeZip exampleLookup (trim (zipInput exampleState)) = Some (40, - 74) \<and>
   shown (doSearch exampleLookup exampleState) = [(inCA, Some 0)]"
proof -
  have v: "validZip (trim (zipInput exampleState))" unfolding exampleState_zip by code_simp
  have g: "geocodeZip exampleLookup (trim (zipInput exampleState)) = Some (40, - 74)"
    unfolding exampleState_zip by (simp add: geocodeZip_def exampleLookup_def)
  have c1: "hasCoords inCA" "lat inCA = Some 40" "lng inCA = Some (- 74)"
    by (simp_all add: inCA_def examplePrescriber_def hasCoords_def truthyNum_def)
  have c3: "hasCoords inCalifornia" "lat inCalifornia = Some 41" "lng inCalifornia = Some (- 74)"
    by (simp_all add: inCalifornia_def examplePrescriber_def hasCoords_def truthyNum_def)
  have d1: "haversine 40 (- 74) 40 (- 74) = 0" by (rule haversine_self)
  have "haversine 40 (- 74) (40 + 1) (- 74) = 3959 * pi / 180" by (rule haversine_meridian)
  then have d3: "\<not> haversine 40 (- 74) 41 (- 74) \<le> 10" using pi_lower by simp
  have sf: "stateFilter exampleState = ''CA''" "radiusSelect exampleState = 10"
    "allPrescribers exampleState = [inCA, inOntario, inCalifornia]"
    by (simp_all add: exampleState_def)
  from radius_search[OF v g] obtain nearby base where
    b: "base = (if stateFilter exampleState = [] then allPrescribers exampleState
                else filter (\<lambda>p. normalizeState (state (address p)) = Some (stateFilter exampleState))
                       (allPrescribers exampleState))" and
    s: "shown (doSearch exampleLookup exampleState) = map (\<lambda>pd. (fst pd, Some (snd pd))) nearby" and
    m: "mset nearby =
          mset (map (\<lambda>p. (p, haversine 40 (- 74) (the (lat p)) (the (lng p))))
                 (filter (\<lambda>p. hasCoords p \<and>
                               haversine 40 (- 74) (the (lat p)) (the (lng p))
                                 \<le> of_int (radiusSelect exampleState))
                    base))"
    by blast
  from b have base: "base = [inCA, inCalifornia]"
    by (simp add: sf normalizeState_inCA normalizeState_inOntario normalizeState_inCalifornia)
  from m have "mset nearby = {#(inCA, 0)#}"
    unfolding base by (simp add: sf c1 c3 d1 d3)
  then have "nearby = [(inCA, 0)]" by simp
  with s have "shown (doSearch exampleLookup exampleState) = [(inCA, Some 0)]" by simp
  with v g show ?thesis by blast
qed

text \<open>
  C7. When the trimmed zip is not five digits, or the lookup finds nothing, \<open>doSearch\<close>
  raises one alert and returns before its first assignment: the state is the one before
  with the alert added, so the stored coordinates, the circle, the records shown and
  the chosen state are unchanged.
\<close>

theorem search_error_keeps_state:
  assumes "\<not> validZip (trim (zipInput s)) \<or> geocodeZip lookup (trim (zipInput s)) = None"
  shows "\<exists>msg. doSearch lookup s = s\<lparr>alerts := alerts s @ [msg]\<rparr> \<and>
           searchLat (doSearch lookup s) = searchLat s \<and>
           searchLng (doSearch lookup s) = searchLng s \<and>
           searchCircle (doSearch lookup s) = searchCircle s \<and>
           shown (doSearch lookup s) = shown s \<and>
           shownFiltered (doSearch lookup s) = shownFiltered s \<and>
           stateFilter (doSearch lookup s) = stateFilter s \<and>
           alerts (doSearch lookup s) = alerts s @ [msg]"
proof (cases "validZip (trim (zipInput s))")
  case False
  then have "doSearch lookup s =
      s\<lparr>alerts := alerts s @ [''Please enter a valid 5-digit zip code.'']\<rparr>"
    by (simp add: doSearch_def)
  then show ?thesis by (intro exI[of _ "''Please enter a valid 5-digit zip code.''"]) simp
next
  case True
  with assms have "geocodeZip lookup (trim (zipInput s)) = None" by simp
  with True have "doSearch lookup s =
      s\<lparr>alerts := alerts s @ [''Could not find location for zip code: '' @ trim (zipInput s)]\<rparr>"
    by (simp add: doSearch_def Let_def)
  then show ?thesis
    by (intro exI[of _ "''Could not find location for zip code: '' @ trim (zipInput s)"]) simp
qed

lemma trim_malformed: "trim ''1234a'' = ''1234a''"
  by code_simp

lemma trim_unknown: "trim '' 99999'' = ''99999''"
  by code_simp

lemma malformed_invalid: "\<not> validZip ''1234a''"
  by code_simp

theorem search_error_keeps_state_witness:
  "\<not> validZip (trim (zipInput (exampleState\<lparr>zipInput := ''1234a''\<rparr>))) \<and>
   shown (doSearch exampleLookup (exampleState\<lparr>zipInput := ''1234a''\<rparr>)) =
     plain [inCA, inCalifornia] \<and>
   geocodeZip exampleLookup (trim (zipInput (exampleState\<lparr>zipInput := '' 99999''\<rparr>))) = None \<and>
   shown (doSearch exampleLookup (exampleState\<lparr>zipInput := '' 99999''\<rparr>)) =
     plain [inCA, inCalifornia] \<and>
   searchCircle (doSearch exampleLookup (exampleState\<lparr>zipInput := '' 99999''\<rparr>)) = None \<and>
   searchLat (doSearch exampleLookup (exampleState\<lparr>zipInput := '' 99999''\<rparr>)) = None"
proof -
  let ?s1 = "exampleState\<lparr>zipInput := ''1234a''\<rparr>"
  let ?s2 = "exampleState\<lparr>zipInput := '' 99999''\<rparr>"
  have h1: "\<not> validZip (trim (zipInput ?s1))" by (simp add: trim_malformed malformed_invalid)
  have h2: "geocodeZip exampleLookup (trim (zipInput ?s2)) = None"
    by (simp add: trim_unknown geocodeZip_def exampleLookup_def)
  from search_error_keeps_state[of ?s1 exampleLookup] h1
  have "shown (doSearch exampleLookup ?s1) = shown ?s1" by blast
  then have k1: "shown (doSearch exampleLookup ?s1) = plain [inCA, inCalifornia]"
    by (simp add: exampleState_def)
  from search_error_keeps_state[of ?s2 exampleLookup] h2
  have "shown (doSearch exampleLookup ?s2) = shown ?s2 \<and>
        searchCircle (doSearch exampleLookup ?s2) = searchCircle ?s2 \<and>
        searchLat (doSearch exampleLookup ?s2) = searchLat ?s2" by blast
  then have k2: "shown (doSearch exampleLookup ?s2) = plain [inCA, inCalifornia] \<and>
        searchCircle (doSearch exampleLookup ?s2) = None \<and>
        searchLat (doSearch exampleLookup ?s2) = None"
    by (simp add: exampleState_def)
  from h1 k1 h2 k2 show ?thesis by blast
qed

section \<open>The pagination\<close>

lemma pageContacts_Json:
  "srv (j * BATCH_SIZE) = Json d \<Longrightarrow> pageContacts srv j = page_contacts d"
  by (simp add: pageContacts_def)

lemma not_stopsAt_Json:
  assumes "\<not> stopsAt srv j"
  obtains d where "srv (j * BATCH_SIZE) = Json d" "page_contacts d \<noteq> []"
    "\<not> reached (accumulated srv j) (page_total d)"
  using assms by (cases "srv (j * BATCH_SIZE)") (auto simp: stopsAt_def)

text \<open>
  From request \<open>j\<close> with the contacts of the answers before it, the loop runs to the
  first request \<open>j + n\<close> at which it leaves, and returns what it has there.
\<close>

lemma fetchLoop_first_stop:
  assumes "stopsAt srv (j + n)"
    and "\<forall>i<n. \<not> stopsAt srv (j + i)"
    and "all = concat (map (pageContacts srv) [0..<j])"
  shows "fetchLoop srv (j * BATCH_SIZE) all = Some (resultAt srv (j + n))"
  using assms
proof (induction n arbitrary: j all)
  case 0
  show ?case
  proof (cases "srv (j * BATCH_SIZE)")
    case (Json d)
    have acc: "accumulated srv j = length (all @ page_contacts d)"
      using 0(3) Json by (simp add: accumulated_def pageContacts_Json)
    from 0(1) Json acc
    have stop: "page_contacts d = [] \<or> reached (length (all @ page_contacts d)) (page_total d)"
      by (simp add: stopsAt_def)
    have step: "fetchLoop srv (j * BATCH_SIZE) all = Some (Inr (all @ page_contacts d))"
      using stop by (subst fetchLoop.simps) (auto simp: Json acFetch_def Let_def)
    have res: "resultAt srv (j + 0) = Inr (all @ page_contacts d)"
      using 0(3) Json by (simp add: resultAt_def acFetch_def pageContacts_Json)
    show ?thesis by (simp only: step res)
  qed (subst fetchLoop.simps, simp add: acFetch_def resultAt_def)+
next
  case (Suc n)
  from Suc.prems(2) have "\<not> stopsAt srv j" by (metis add.right_neutral zero_less_Suc)
  then obtain d where d: "srv (j * BATCH_SIZE) = Json d" "page_contacts d \<noteq> []"
    "\<not> reached (accumulated srv j) (page_total d)"
    by (rule not_stopsAt_Json)
  let ?all' = "all @ page_contacts d"
  have all': "?all' = concat (map (pageContacts srv) [0..<Suc j])"
    using Suc.prems(3) d(1) by (simp add: pageContacts_Json)
  have acc: "accumulated srv j = length ?all'"
    using all' by (simp add: accumulated_def)
  have s: "stopsAt srv (Suc j + n)" using Suc.prems(1) by simp
  have ns: "\<forall>i<n. \<not> stopsAt srv (Suc j + i)"
  proof (intro allI impI)
    fix i assume "i < n"
    then have "Suc i < Suc n" by simp
    with Suc.prems(2) have "\<not> stopsAt srv (j + Suc i)" by blast
    then show "\<not> stopsAt srv (Suc j + i)" by simp
  qed
  from Suc.IH[OF s ns all']
  have r: "fetchLoop srv (j * BATCH_SIZE + BATCH_SIZE) ?all' = Some (resultAt srv (j + Suc n))"
    by (simp add: add.commute)
  have nr: "\<not> reached (length ?all') (page_total d)" using d(3) acc by simp
  show ?case
    using d(2) nr r by (subst fetchLoop.simps) (simp add: d(1) acFetch_def Let_def)
qed

lemma fetchAllPrescribers_first_stop:
  assumes "stopsAt (ac_contacts w) k" and "\<forall>i<k. \<not> stopsAt (ac_contacts w) i"
  shows "fetchAllPrescribers w = Some (resultAt (ac_contacts w) k)"
proof -
  from assms have "stopsAt (ac_contacts w) (0 + k)" "\<forall>i<k. \<not> stopsAt (ac_contacts w) (0 + i)"
    by simp_all
  from fetchLoop_first_stop[OF this, of "[]"] show ?thesis
    by (simp add: fetchAllPrescribers_def)
qed

text \<open>
  C8. If some request of the pagination gets an answer at which the loop leaves (an empty
  page, or a page that brings the accumulated count to the total it reports; a failed
  call leaves the loop too), then \<open>fetchAllPrescribers\<close> returns: it leaves at the first
  such request \<open>k\<close>, with the contacts of the pages \<open>0..k\<close> or with the exception of
  request \<open>k\<close>. The reported total need not be right.
\<close>

theorem pagination_terminates:
  assumes "\<exists>k. stopsAt (ac_contacts w) k"
  shows "\<exists>k r. stopsAt (ac_contacts w) k \<and> (\<forall>i<k. \<not> stopsAt (ac_contacts w) i) \<and>
           fetchAllPrescribers w = Some r \<and> r = resultAt (ac_contacts w) k"
proof -
  let ?srv = "ac_contacts w"
  define k where "k = (LEAST k. stopsAt ?srv k)"
  from assms have s: "stopsAt ?srv k" unfolding k_def by (metis LeastI)
  have ns: "\<forall>i<k. \<not> stopsAt ?srv i" unfolding k_def using not_less_Least by blast
  from fetchAllPrescribers_first_stop[OF s ns] s ns show ?thesis by blast
qed

text \<open>
  The hypothesis is needed: if every page has contacts and no answer reports a total
  that is a number, the loop never ends.
\<close>

lemma endless_some:
  assumes "fetchLoop srv offset all = Some r"
  shows "srv \<noteq> endlessServer"
proof (rule fetchLoop.raw_induct[where P = "\<lambda>s off al y. s \<noteq> endlessServer", OF _ assms])
  fix f s off al y
  assume IH: "\<And>s' off' al' y'. f s' off' al' = Some y' \<Longrightarrow> s' \<noteq> endlessServer"
    and body: "(case acFetch (s off) of
                  Inl e \<Rightarrow> Some (Inl e)
                | Inr data \<Rightarrow>
                    (let contacts = page_contacts data;
                         all' = al @ contacts;
                         tot = page_total data
                     in if reached (length all') tot \<or> contacts = [] then Some (Inr all')
                        else f s (off + BATCH_SIZE) all')) = Some y"
  show "s \<noteq> endlessServer"
  proof
    assume e: "s = endlessServer"
    with body have "f s (off + BATCH_SIZE) (al @ [exampleContact ''1'']) = Some y"
      by (simp add: endlessServer_def acFetch_def Let_def reached_def)
    from IH[OF this] e show False by simp
  qed
qed

lemma endless_never_returns: "fetchLoop endlessServer offset all = None"
  using endless_some[of endlessServer offset all]
  by (cases "fetchLoop endlessServer offset all") auto

theorem pagination_terminates_witness:
  "stopsAt (ac_contacts exampleWorld) 1 \<and>
   fetchAllPrescribers exampleWorld =
     Some (Inr [exampleContact ''1'', exampleContact ''2'', exampleContact ''3''])"
proof -
  let ?srv = "ac_contacts exampleWorld"
  have srv: "?srv = misreportingServer" by (simp add: exampleWorld_def)
  have s1: "stopsAt ?srv 1"
    by (simp add: srv stopsAt_def misreportingServer_def BATCH_SIZE_def)
  have p0: "pageContacts ?srv 0 = [exampleContact ''1'', exampleContact ''2'', exampleContact ''3'']"
    by (simp add: srv pageContacts_def misreportingServer_def)
  have p1: "pageContacts ?srv 1 = []"
    by (simp add: srv pageContacts_def misreportingServer_def BATCH_SIZE_def)
  have s0: "\<not> stopsAt ?srv 0"
    by (simp add: srv stopsAt_def accumulated_def pageContacts_def misreportingServer_def
        reached_def)
  from s1 have ex: "\<exists>k. stopsAt ?srv k" by blast
  from pagination_terminates[OF ex] obtain k r where
    k: "stopsAt ?srv k" "\<forall>i<k. \<not> stopsAt ?srv i" and
    r: "fetchAllPrescribers exampleWorld = Some r" "r = resultAt ?srv k"
    by blast
  have "k = 1"
  proof -
    from k(2) s1 have "\<not> 1 < k" by blast
    moreover from k(1) s0 have "k \<noteq> 0" by metis
    ultimately show ?thesis by simp
  qed
  then have "r = Inr [exampleContact ''1'', exampleContact ''2'', exampleContact ''3'']"
    using r(2) p0 p1
    by (simp add: resultAt_def srv misreportingServer_def acFetch_def BATCH_SIZE_def)
  with r(1) s1 show ?thesis by simp
qed

section \<open>The geocoder\<close>



lemma geocodeNominatim_throws:
  "(\<exists>e. geocodeNominatim w addr = Inl e) \<longleftrightarrow>
     nominatim w addr = NetworkFailure \<or> nominatim w addr = NotJson"
  by (simp add: geocodeNominatim_def split: response.splits list.splits)

lemma geocodeGoogle_throws:
  "(\<exists>e. geocodeGoogle w addr = Inl e) \<longleftrightarrow>
     google_maps w addr = NetworkFailure \<or> google_maps w addr = NotJson"
  by (simp add: geocodeGoogle_def Let_def split: response.splits)


lemma geocode_throws:
  "(\<exists>e. geocode cfg w addr = Inl e) \<longleftrightarrow>
     (if GEOCODER cfg = ''google'' \<and> truthy (GOOGLE_KEY cfg)
      then google_maps w addr = NetworkFailure \<or> google_maps w addr = NotJson
      else nominatim w addr = NetworkFailure \<or> nominatim w addr = NotJson)"
  by (simp add: geocode_def geocodeNominatim_throws geocodeGoogle_throws)

section \<open>Building a record\<close>

text \<open>
  \<open>enrichWithGoogle\<close> never throws, and verifies a record exactly when the enrichment of
  that record does not fail.
\<close>

lemma enrichWithGoogle_fails:
  assumes "enrichmentFails cfg w p"
  shows "enrichWithGoogle cfg w p = noMatch"
proof (cases "truthy (GOOGLE_KEY cfg)")
  case False
  then show ?thesis by (simp add: enrichWithGoogle_def)
next
  case True
  with assms have "placesNoMatch (google_places w (placesQuery p))"
    by (simp add: enrichmentFails_def)
  then show ?thesis
    using True
    by (cases "google_places w (placesQuery p)")
       (simp_all add: enrichWithGoogle_def Let_def placesNoMatch_def placesQuery_def
          split: list.splits)
qed

lemma enrichWithGoogle_verified:
  "e_verified (enrichWithGoogle cfg w p) \<longleftrightarrow> \<not> enrichmentFails cfg w p"
proof (cases "enrichmentFails cfg w p")
  case True
  then show ?thesis by (simp add: enrichWithGoogle_fails noMatch_def)
next
  case False
  then have k: "truthy (GOOGLE_KEY cfg)"
    and n: "\<not> placesNoMatch (google_places w (placesQuery p))"
    by (simp_all add: enrichmentFails_def)
  from n obtain pl rest where "google_places w (placesQuery p) = Json (pl # rest)"
    by (cases "google_places w (placesQuery p)")
       (auto simp: placesNoMatch_def neq_Nil_conv)
  with k False show ?thesis
    by (simp add: enrichWithGoogle_def Let_def placesQuery_def)
qed

lemma applyEnrichment_coords:
  "lat (applyEnrichment cfg w p) = lat p"
  "lng (applyEnrichment cfg w p) = lng p"
  "geoSource (applyEnrichment cfg w p) = geoSource p"
  "address (applyEnrichment cfg w p) = address p"
  by (simp_all add: applyEnrichment_def Let_def)


lemma applyEnrichment_verified:
  "verified (applyEnrichment cfg w (newPrescriber c flds nm fa g)) \<longleftrightarrow>
     ENRICH cfg \<and> \<not> enrichmentFails cfg w (newPrescriber c flds nm fa g)"
  by (simp add: applyEnrichment_def Let_def enrichWithGoogle_verified)
     (simp add: newPrescriber_def)

lemma buildPrescriber_Inr:
  assumes "geocodeWithFallback cfg w flds (buildAddress flds) = Inr g"
  shows "buildPrescriber cfg w c flds =
           Inr (applyEnrichment cfg w
                  (newPrescriber c flds (prescriberName c flds) (buildAddress flds) g))"
  using assms by (simp add: buildPrescriber_def Let_def)

lemma buildPrescriber_Inl:
  "buildPrescriber cfg w c flds = Inl e \<longleftrightarrow>
     geocodeWithFallback cfg w flds (buildAddress flds) = Inl e"
  by (simp add: buildPrescriber_def Let_def split: sum.splits)

lemma newPrescriber_coords:
  "lat (newPrescriber c flds nm fa g) = numOrNull (map_option geo_lat g)"
  "lng (newPrescriber c flds nm fa g) = numOrNull (map_option geo_lng g)"
  "geoSource (newPrescriber c flds nm fa g) = orElse (map_option geo_source g) None"
  "full (address (newPrescriber c flds nm fa g)) = strOrNull fa"
  by (simp_all add: newPrescriber_def)

lemma geocodeWithFallback_null:
  assumes "geocode cfg w fa = Inr None"
    and "geocode cfg w (the (flds ''zip'') @ '', USA'') = Inr None"
  shows "geocodeWithFallback cfg w flds fa = Inr None"
  using assms by (simp add: geocodeWithFallback_def)

section \<open>Counters\<close>

lemma mset_insertBy: "mset (insertBy cmp x xs) = add_mset x (mset xs)"
  by (induction xs) simp_all

lemma mset_sortBy: "mset (sortBy cmp xs) = mset xs"
  unfolding sortBy_def by (induction xs) (simp_all add: mset_insertBy)

lemma length_sortBy: "length (sortBy cmp xs) = length xs"
  using mset_sortBy[of cmp xs] by (metis size_mset)

lemma length_filter_sortBy: "length (filter P (sortBy cmp xs)) = length (filter P xs)"
proof -
  have "mset (filter P (sortBy cmp xs)) = mset (filter P xs)"
    by (simp only: mset_filter mset_sortBy)
  then show ?thesis by (metis size_mset)
qed

lemma countRecord_cases:
  "countRecord p gs =
     (fst gs + (if hasCoords p then 1 else 0),
      snd gs + (if \<not> hasCoords p \<and> \<not> truthy (full (address p)) then 1 else 0))"
  by (simp add: countRecord_def hasCoords_def)

lemma counted_step: "counted acc \<Longrightarrow> counted (fst acc @ [p], countRecord p (snd acc))"
  by (simp add: counted_def countRecord_cases)

lemma processContacts_counted:
  "counted acc \<Longrightarrow> processContacts cfg w cs acc = Inr acc' \<Longrightarrow> counted acc'"
proof (induction cs arbitrary: acc)
  case Nil
  then show ?case by simp
next
  case (Cons c cs)
  from Cons.prems(2) obtain flds p where
    "processContacts cfg w cs (fst acc @ [p], countRecord p (snd acc)) = Inr acc'"
    by (auto split: sum.splits)
  with Cons.IH counted_step[OF Cons.prems(1)] show ?case by blast
qed

lemma disjoint_filters:
  "length (filter P xs) + length (filter (\<lambda>x. \<not> P x \<and> Q x) xs) \<le> length xs"
  by (induction xs) auto

section \<open>The example run\<close>

lemma example_fetchAll:
  "fetchAllPrescribers exampleWorld =
     Some (Inr [exampleContact ''1'', exampleContact ''2'', exampleContact ''3''])"
proof -
  let ?srv = "ac_contacts exampleWorld"
  have srv: "?srv = misreportingServer" by (simp add: exampleWorld_def)
  have s1: "stopsAt ?srv 1"
    by (simp add: srv stopsAt_def misreportingServer_def BATCH_SIZE_def)
  have s0: "\<forall>i<1. \<not> stopsAt ?srv i"
    by (simp add: srv stopsAt_def accumulated_def pageContacts_def misreportingServer_def
        reached_def)
  have "resultAt ?srv 1 = Inr [exampleContact ''1'', exampleContact ''2'', exampleContact ''3'']"
    by (simp add: resultAt_def srv misreportingServer_def acFetch_def BATCH_SIZE_def
        pageContacts_def)
  with fetchAllPrescribers_first_stop[OF s1 s0] show ?thesis by simp
qed

lemma example_fields:
  "fetchFieldValues exampleWorld ''1'' = Inr fields1"
  "fetchFieldValues exampleWorld ''2'' = Inr fields2"
  "fetchFieldValues exampleWorld ''3'' = Inr Map.empty"
  by (simp_all add: fetchFieldValues_def acFetch_def exampleWorld_def exampleFieldValues_def
      FIELD_MAP_def truthy_def fields1_def fields2_def)

lemma example_addresses:
  "buildAddress fields1 = ''1 Main St, IL, 62701''"
  "buildAddress fields2 = ''9 Elm St, 99999''"
  "buildAddress Map.empty = []"
  by (simp_all add: buildAddress_def filterBoolean_def truthy_def fields1_def fields2_def)

lemma example_zips:
  "truthy (fields1 ''zip'')" "truthy (fields2 ''zip'')" "the (fields2 ''zip'') = ''99999''"
  by (simp_all add: truthy_def fields1_def fields2_def)

lemma example_geocode:
  "geocode exampleConfig exampleWorld ''1 Main St, IL, 62701'' = Inr (Some springfield)"
  "geocode exampleConfig exampleWorld ''9 Elm St, 99999'' = Inr None"
  "geocode exampleConfig exampleWorld ''99999, USA'' = Inr None"
  by (simp_all add: geocode_def geocodeNominatim_def exampleConfig_def exampleWorld_def
      exampleNominatim_def springfield_def)

lemma example_geo:
  "geocodeWithFallback exampleConfig exampleWorld fields1 (buildAddress fields1) =
     Inr (Some springfield)"
  "geocodeWithFallback exampleConfig exampleWorld fields2 (buildAddress fields2) = Inr None"
  "geocodeWithFallback exampleConfig exampleWorld Map.empty (buildAddress Map.empty) = Inr None"
  by (simp_all add: geocodeWithFallback_def example_addresses example_geocode example_zips)

lemma example_build:
  "buildPrescriber exampleConfig exampleWorld (exampleContact ''1'') fields1 =
     Inr (exampleRecord exampleConfig exampleWorld ''1'' fields1 (Some springfield))"
  "buildPrescriber exampleConfig exampleWorld (exampleContact ''2'') fields2 =
     Inr (exampleRecord exampleConfig exampleWorld ''2'' fields2 None)"
  "buildPrescriber exampleConfig exampleWorld (exampleContact ''3'') Map.empty =
     Inr (exampleRecord exampleConfig exampleWorld ''3'' Map.empty None)"
  by (simp_all add: buildPrescriber_Inr example_geo exampleRecord_def)

lemma example_coords:
  "hasCoords (exampleRecord cfg w ''1'' fields1 (Some springfield))"
  "\<not> hasCoords (exampleRecord cfg w ''2'' fields2 None)"
  "\<not> hasCoords (exampleRecord cfg w ''3'' Map.empty None)"
  by (simp_all add: exampleRecord_def hasCoords_def applyEnrichment_coords newPrescriber_coords
      numOrNull_def truthyNum_def springfield_def)

lemma example_full:
  "truthy (full (address (exampleRecord cfg w ''2'' fields2 None)))"
  "\<not> truthy (full (address (exampleRecord cfg w ''3'' Map.empty None)))"
  by (simp_all add: exampleRecord_def applyEnrichment_coords newPrescriber_coords
      example_addresses strOrNull_def truthy_def)

lemma example_ids: "contact_id (exampleContact i) = i"
  by (simp add: exampleContact_def)

lemma example_process:
  "processContacts exampleConfig exampleWorld
     [exampleContact ''1'', exampleContact ''2'', exampleContact ''3''] ([], 0, 0) =
   Inr ([exampleRecord exampleConfig exampleWorld ''1'' fields1 (Some springfield),
         exampleRecord exampleConfig exampleWorld ''2'' fields2 None,
         exampleRecord exampleConfig exampleWorld ''3'' Map.empty None], 1, 1)"
  by (simp add: example_ids example_fields example_build countRecord_cases example_coords
      example_full)

lemma example_main:
  "main exampleConfig exampleWorld =
     Some (Inr (\<lparr>totalCount = 3, geocoded = 1, noAddress = 1,
                 prescribers =
                   sortBy (\<lambda>a b. localeCompare exampleWorld (name a) (name b))
                     [exampleRecord exampleConfig exampleWorld ''1'' fields1 (Some springfield),
                      exampleRecord exampleConfig exampleWorld ''2'' fields2 None,
                      exampleRecord exampleConfig exampleWorld ''3'' Map.empty None]\<rparr>,
                [OUTPUT_PATH, PUBLIC_OUTPUT]))"
proof -
  have cred: "truthy (AC_BASE_URL exampleConfig)" "truthy (AC_API_KEY exampleConfig)"
    "\<not> DRY_RUN exampleConfig"
    by (simp_all add: exampleConfig_def truthy_def)
  show ?thesis
    unfolding main_def
    by (simp del: processContacts.simps add: cred example_fetchAll example_process Let_def)
qed

section \<open>The counters of the output document\<close>

text \<open>
  C10. In the document of a run that ends, \<open>total\<close> is the number of records,
  \<open>geocoded\<close> is the number of records with \<open>p.lat && p.lng\<close>, \<open>noAddress\<close> the number
  of records without it and without \<open>address.full\<close>: no record is counted twice, so
  \<open>geocoded + noAddress \<le> total\<close>. A record with an \<open>address.full\<close> and with neither
  coordinate changes neither counter.
\<close>

theorem counters_agree:
  assumes "main cfg w = Some (Inr (out, paths))"
  shows "totalCount out = length (prescribers out) \<and>
         geocoded out = length (filter hasCoords (prescribers out)) \<and>
         noAddress out =
           length (filter (\<lambda>p. \<not> hasCoords p \<and> \<not> truthy (full (address p))) (prescribers out)) \<and>
         geocoded out + noAddress out \<le> totalCount out \<and>
         (\<forall>p gs. truthy (full (address p)) \<and> lat p = None \<and> lng p = None \<longrightarrow>
                   countRecord p gs = gs)"
proof -
  from assms obtain contacts acc where
    pc: "processContacts cfg w contacts ([], 0, 0) = Inr acc" and
    out: "out = \<lparr>totalCount = length (fst acc), geocoded = fst (snd acc),
                 noAddress = snd (snd acc),
                 prescribers = sortBy (\<lambda>a b. localeCompare w (name a) (name b)) (fst acc)\<rparr>"
    by (auto simp: main_def Let_def split: if_splits option.splits sum.splits)
  have "counted ([], 0, 0)" by (simp add: counted_def)
  from processContacts_counted[OF this pc] have c: "counted acc" .
  have t: "totalCount out = length (prescribers out)"
    by (simp add: out length_sortBy)
  have g: "geocoded out = length (filter hasCoords (prescribers out))"
    using c by (simp add: out counted_def length_filter_sortBy)
  have n: "noAddress out =
           length (filter (\<lambda>p. \<not> hasCoords p \<and> \<not> truthy (full (address p))) (prescribers out))"
    using c by (simp add: out counted_def length_filter_sortBy)
  have le: "geocoded out + noAddress out \<le> totalCount out"
    unfolding t g n by (rule disjoint_filters)
  have k: "\<forall>p gs. truthy (full (address p)) \<and> lat p = None \<and> lng p = None \<longrightarrow>
                   countRecord p gs = gs"
    by (simp add: countRecord_def truthyNum_def)
  from t g n le k show ?thesis by blast
qed

theorem counters_agree_witness:
  "\<exists>out. main exampleConfig exampleWorld = Some (Inr (out, [OUTPUT_PATH, PUBLIC_OUTPUT])) \<and>
         totalCount out = 3 \<and> geocoded out = 1 \<and> noAddress out = 1 \<and>
         length (prescribers out) = 3 \<and>
         length (filter hasCoords (prescribers out)) = 1 \<and>
         countRecord (exampleRecord exampleConfig exampleWorld ''2'' fields2 None) (1, 0) = (1, 0)"
proof -
  let ?out = "\<lparr>totalCount = 3, geocoded = 1, noAddress = 1,
                 prescribers =
                   sortBy (\<lambda>a b. localeCompare exampleWorld (name a) (name b))
                     [exampleRecord exampleConfig exampleWorld ''1'' fields1 (Some springfield),
                      exampleRecord exampleConfig exampleWorld ''2'' fields2 None,
                      exampleRecord exampleConfig exampleWorld ''3'' Map.empty None]\<rparr>"
  note t = counters_agree[OF example_main]
  have l2: "lat (exampleRecord exampleConfig exampleWorld ''2'' fields2 None) = None"
     "lng (exampleRecord exampleConfig exampleWorld ''2'' fields2 None) = None"
    by (simp_all add: exampleRecord_def applyEnrichment_coords newPrescriber_coords numOrNull_def
        truthyNum_def)
  from t have a: "length (prescribers ?out) = 3" by simp
  from t have b: "length (filter hasCoords (prescribers ?out)) = 1" by simp
  from t example_full(1) l2
  have c: "countRecord (exampleRecord exampleConfig exampleWorld ''2'' fields2 None) (1, 0) = (1, 0)"
    by blast
  from example_main a b c show ?thesis by (intro exI[of _ ?out]) simp
qed

section \<open>The coordinates of a record\<close>

lemma geocode_source:
  assumes "geocode cfg w addr = Inr (Some g)"
  shows "geo_source g = ''nominatim'' \<or> geo_source g = ''google''"
proof (cases "GEOCODER cfg = ''google'' \<and> truthy (GOOGLE_KEY cfg)")
  case True
  with assms have "geocodeGoogle w addr = Inr (Some g)" by (simp add: geocode_def)
  then show ?thesis
    by (auto simp: geocodeGoogle_def Let_def split: response.splits if_splits)
next
  case False
  with assms have "geocodeNominatim w addr = Inr (Some g)" by (auto simp: geocode_def)
  then show ?thesis
    by (auto simp: geocodeNominatim_def split: response.splits list.splits)
qed

lemma geocodeWithFallback_source:
  assumes "geocodeWithFallback cfg w flds fa = Inr (Some g)"
  shows "geo_source g = ''nominatim'' \<or> geo_source g = ''google''"
  using assms geocode_source
  by (auto simp: geocodeWithFallback_def split: if_splits sum.splits option.splits)

text \<open>
  Coordinates that are not 0 are both kept, with the source of the geocoder; a failure
  of both attempts leaves all three null.
\<close>

lemma coordinates_when_nonzero:
  assumes "geocodeWithFallback cfg w flds (buildAddress flds) = Inr (Some g)"
    and "geo_lat g \<noteq> 0" and "geo_lng g \<noteq> 0"
  shows "\<exists>p. buildPrescriber cfg w c flds = Inr p \<and>
           lat p = Some (geo_lat g) \<and> lng p = Some (geo_lng g) \<and>
           (geoSource p = Some ''nominatim'' \<or> geoSource p = Some ''google'')"
  using assms geocodeWithFallback_source[OF assms(1)]
  by (auto simp: buildPrescriber_Inr applyEnrichment_coords newPrescriber_coords numOrNull_def
      truthyNum_def orElse_def truthy_def)


lemma same_contacts:
  "fetchAllPrescribers (w\<lparr>nominatim := n\<rparr>) = fetchAllPrescribers w"
  "fetchAllPrescribers (w\<lparr>ac_fieldValues := f\<rparr>) = fetchAllPrescribers w"
  by (simp_all add: fetchAllPrescribers_def)

lemma same_fields:
  "fetchFieldValues (w\<lparr>nominatim := n\<rparr>) i = fetchFieldValues w i"
  by (simp add: fetchFieldValues_def)


lemma example_credentials:
  "truthy (AC_BASE_URL exampleConfig)" "truthy (AC_API_KEY exampleConfig)"
  "\<not> DRY_RUN exampleConfig"
  by (simp_all add: exampleConfig_def truthy_def)

section \<open>Failures of the geocoder and of the field fetch\<close>

text \<open>
  C2. \<open>geocodeNominatim\<close> and \<open>geocodeGoogle\<close> await \<open>fetch\<close> and \<open>res.json()\<close>
  outside any \<open>try\<close>: when the service cannot be reached the call throws. Here Nominatim
  is unreachable: \<open>geocode\<close> throws for the address of contact 1, \<open>buildPrescriber\<close>
  throws with it, and the run ends with status 1 and no document. (The zip lookup of
  the map, \<open>geocodeZip\<close>, and \<open>enrichWithGoogle\<close> wrap the same calls in \<open>try\<close>.)
\<close>

theorem geocode_throws_when_unreachable:
  "geocode exampleConfig nominatimUnreachable ''1 Main St, IL, 62701'' = Inl FetchFailed \<and>
   buildPrescriber exampleConfig nominatimUnreachable (exampleContact ''1'') fields1 =
     Inl FetchFailed"
proof -
  have g: "geocode exampleConfig nominatimUnreachable ''1 Main St, IL, 62701'' = Inl FetchFailed"
    by (simp add: geocode_def geocodeNominatim_def exampleConfig_def nominatimUnreachable_def)
  have b: "buildPrescriber exampleConfig nominatimUnreachable (exampleContact ''1'') fields1 =
             Inl FetchFailed"
    by (simp add: buildPrescriber_Inl geocodeWithFallback_def example_addresses g)
  from g b show ?thesis by blast
qed

text \<open>The run in that world: the first contact ends it.\<close>

lemma unreachable_run_aborts: "main exampleConfig nominatimUnreachable = Some (Inl FetchFailed)"
proof -
  have g: "geocode exampleConfig nominatimUnreachable ''1 Main St, IL, 62701'' = Inl FetchFailed"
    by (simp add: geocode_def geocodeNominatim_def exampleConfig_def nominatimUnreachable_def)
  have b: "buildPrescriber exampleConfig nominatimUnreachable (exampleContact ''1'') fields1 =
             Inl FetchFailed"
    by (simp add: buildPrescriber_Inl geocodeWithFallback_def example_addresses g)
  have c: "fetchAllPrescribers nominatimUnreachable =
             Some (Inr [exampleContact ''1'', exampleContact ''2'', exampleContact ''3''])"
    unfolding nominatimUnreachable_def by (simp only: same_contacts example_fetchAll)
  have f: "fetchFieldValues nominatimUnreachable ''1'' = Inr fields1"
    unfolding nominatimUnreachable_def by (simp only: same_fields example_fields)
  show ?thesis
    unfolding main_def by (simp add: example_credentials c example_ids f b)
qed

text \<open>
  C5. \<open>lng: geo?.lng || null\<close> takes the number 0 for no value, and so does the line
  for \<open>lat\<close>. Here the paid geocoder answers with a point on the prime meridian,
  latitude 51.5 and longitude 0: the record built for contact 1 has the \<open>lat\<close> 51.5, no
  \<open>lng\<close>, and the source \<open>google\<close>.
\<close>

theorem meridian_record_has_one_coordinate:
  "buildPrescriber googleConfig onTheMeridian (exampleContact ''1'') fields1 =
     Inr (exampleRecord googleConfig onTheMeridian ''1'' fields1 (Some meridianPoint)) \<and>
   lat (exampleRecord googleConfig onTheMeridian ''1'' fields1 (Some meridianPoint)) = Some 51.5 \<and>
   lng (exampleRecord googleConfig onTheMeridian ''1'' fields1 (Some meridianPoint)) = None \<and>
   geoSource (exampleRecord googleConfig onTheMeridian ''1'' fields1 (Some meridianPoint)) =
     Some ''google''"
proof -
  have g: "geocode googleConfig onTheMeridian ''1 Main St, IL, 62701'' = Inr (Some meridianPoint)"
    by (simp add: geocode_def geocodeGoogle_def googleConfig_def exampleConfig_def truthy_def
        onTheMeridian_def meridianPoint_def)
  have "geocodeWithFallback googleConfig onTheMeridian fields1 (buildAddress fields1) =
          Inr (Some meridianPoint)"
    by (simp add: geocodeWithFallback_def example_addresses g)
  then have b: "buildPrescriber googleConfig onTheMeridian (exampleContact ''1'') fields1 =
     Inr (exampleRecord googleConfig onTheMeridian ''1'' fields1 (Some meridianPoint))"
    by (simp add: buildPrescriber_Inr exampleRecord_def)
  have c: "lat (exampleRecord googleConfig onTheMeridian ''1'' fields1 (Some meridianPoint)) =
             Some 51.5"
    "lng (exampleRecord googleConfig onTheMeridian ''1'' fields1 (Some meridianPoint)) = None"
    "geoSource (exampleRecord googleConfig onTheMeridian ''1'' fields1 (Some meridianPoint)) =
       Some ''google''"
    by (simp_all add: exampleRecord_def applyEnrichment_coords newPrescriber_coords numOrNull_def
        truthyNum_def orElse_def truthy_def meridianPoint_def)
  from b c show ?thesis by blast
qed






end
